theory Spec2Isabelle
  imports Complex_Main
begin

section \<open>Data model of the image viewer\<close>

text \<open>
  The main window of \<^verbatim>\<open>appImageViewer1O.py\<close> holds one picture in three forms: a
  \<^verbatim>\<open>QPixmap\<close> (shown on the scene), a \<^verbatim>\<open>QImage\<close> (pixel access) and a numpy array
  (input of the vision library), plus one earlier pixmap for undo.

  A numpy array is its shape and its row-major buffer. Pixel values are bytes; the
  methods modelled here only compare them with zero, so they are naturals.
\<close>

record ndarray =
  shape :: "nat list"
  elems :: "nat list"

text \<open>
  The toolkit's pixmap and image: their size, their depth (bits per pixel) and their
  pixel buffer. The buffer is opaque to the window's code, which only asks for the
  size.
\<close>

record qpixmap =
  pm_width :: int
  pm_height :: int
  pm_depth :: nat
  pm_bits :: "nat list"

record qimage =
  im_width :: int
  im_height :: int
  im_depth :: nat
  im_bits :: "nat list"

text \<open>\<^verbatim>\<open>QPixmap()\<close>, \<^verbatim>\<open>QImage()\<close> and \<^verbatim>\<open>np.array([])\<close> of \<^verbatim>\<open>MainWindow.__init__\<close>.\<close>

definition null_pixmap :: qpixmap where
  "null_pixmap = \<lparr>pm_width = 0, pm_height = 0, pm_depth = 0, pm_bits = []\<rparr>"

definition null_image :: qimage where
  "null_image = \<lparr>im_width = 0, im_height = 0, im_depth = 0, im_bits = []\<rparr>"

definition empty_array :: ndarray where
  "empty_array = \<lparr>shape = [0], elems = []\<rparr>"

text \<open>
  \<^verbatim>\<open>isNull()\<close>: a null pixmap (image) is one without a positive width and height, the
  same test \<^verbatim>\<open>undoLast\<close> writes out as \<^verbatim>\<open>(w > 0) and (h > 0)\<close>.
\<close>

definition pm_isNull :: "qpixmap \<Rightarrow> bool" where
  "pm_isNull p \<longleftrightarrow> \<not> (0 < pm_width p \<and> 0 < pm_height p)"

definition im_isNull :: "qimage \<Rightarrow> bool" where
  "im_isNull i \<longleftrightarrow> \<not> (0 < im_width i \<and> 0 < im_height i)"

text \<open>
  The view transform, as the calls that built it: \<^verbatim>\<open>setTransform(QTransform())\<close> is
  \<open>Identity\<close>, \<^verbatim>\<open>view.scale(sx, sy)\<close> wraps the transform it is applied to.
\<close>

datatype transform = Identity | Scaled real real transform

text \<open>The rubber band rectangle handed to \<^verbatim>\<open>cropEnd\<close>: top left corner, width, height.\<close>

record qrect =
  rx :: int
  ry :: int
  rw :: int
  rh :: int

text \<open>
  The operations of the GUI toolkit, of the vision library and of
  \<^verbatim>\<open>files/myImageTools.py\<close> that the window calls. Their code is not part of the
  sources at hand, so they are parameters of every method below: each theorem holds
  for whatever these functions compute. Each function stands for a whole library
  pipeline of its method (\<open>edge_magnitude\<close> for the Sobel filters, magnitude, smoothing
  and scaling to bytes of \<^verbatim>\<open>tryEdges\<close>, and so on) and is taken to return: an
  exception thrown inside the library is outside the model.
\<close>

record toolkit =
  toImage :: "qpixmap \<Rightarrow> qimage"
  fromImage :: "qimage \<Rightarrow> qpixmap"
  pm_copy :: "qpixmap \<Rightarrow> int \<Rightarrow> int \<Rightarrow> int \<Rightarrow> int \<Rightarrow> qpixmap"
  allGray :: "qimage \<Rightarrow> bool"
  qimage2np :: "qimage \<Rightarrow> ndarray"
  np2qimage :: "ndarray \<Rightarrow> qimage"
  cvt_BGR2GRAY :: "ndarray \<Rightarrow> ndarray"
  cvt_BGRA2GRAY :: "ndarray \<Rightarrow> ndarray"
  cvt_GRAY2BGR :: "ndarray \<Rightarrow> ndarray"
  cv_resize :: "ndarray \<Rightarrow> int \<Rightarrow> int \<Rightarrow> ndarray"
  cv_resize_max :: "ndarray \<Rightarrow> nat \<Rightarrow> ndarray"
  edge_magnitude :: "ndarray \<Rightarrow> int \<Rightarrow> int \<Rightarrow> ndarray"
  filter_response :: "ndarray \<Rightarrow> int list \<Rightarrow> int \<Rightarrow> ndarray"
  threshold_otsu :: "ndarray \<Rightarrow> ndarray"
  threshold_binary :: "ndarray \<Rightarrow> int \<Rightarrow> ndarray"
  hough_lines_drawn :: "ndarray \<Rightarrow> ndarray \<Rightarrow> ndarray"
  harris_circles_drawn :: "ndarray \<Rightarrow> ndarray \<Rightarrow> ndarray"

text \<open>
  The attributes of \<^verbatim>\<open>MainWindow\<close> that its methods read. Window title, status line
  and menu enabling are only ever written, and are left out.
\<close>

record window =
  pixmap :: qpixmap
  prevPixmap :: qpixmap
  image :: qimage
  isAllGray :: bool
  npImage :: ndarray
  cropActive :: bool
  curItem :: "qpixmap option"
  sceneRect :: "int \<times> int"
  viewTransform :: transform
  scaleUpFactor :: real

datatype error = IndexError | ValueError | UnboundLocalError | CameraError

section \<open>Shared helpers of the window\<close>

text \<open>\<^verbatim>\<open>scaleOne\<close>, \<^verbatim>\<open>scaleUp\<close>, \<^verbatim>\<open>scaleDown\<close>: guarded by \<^verbatim>\<open>not self.pixmap.isNull()\<close>.\<close>

definition scaleOne :: "'a window_scheme \<Rightarrow> 'a window_scheme" where
  "scaleOne s = (if \<not> pm_isNull (pixmap s) then s\<lparr>viewTransform := Identity\<rparr> else s)"

definition scaleUp :: "window \<Rightarrow> window" where
  "scaleUp s =
     (if \<not> pm_isNull (pixmap s)
      then s\<lparr>viewTransform := Scaled (scaleUpFactor s) (scaleUpFactor s) (viewTransform s)\<rparr>
      else s)"

definition scaleDown :: "window \<Rightarrow> window" where
  "scaleDown s =
     (if \<not> pm_isNull (pixmap s)
      then s\<lparr>viewTransform :=
             Scaled (1 / scaleUpFactor s) (1 / scaleUpFactor s) (viewTransform s)\<rparr>
      else s)"

text \<open>\<^verbatim>\<open>setIsAllGray()\<close> with its default argument: asks the image unless it is null.\<close>

definition setIsAllGray :: "toolkit \<Rightarrow> 'a window_scheme \<Rightarrow> 'a window_scheme" where
  "setIsAllGray tk s =
     s\<lparr>isAllGray := (if \<not> im_isNull (image s) then allGray tk (image s) else False)\<rparr>"

text \<open>\<^verbatim>\<open>A[:,:,0]\<close> of a 3-dimensional array: the first channel of every pixel.\<close>

definition channel0 :: "ndarray \<Rightarrow> ndarray" where
  "channel0 A =
     (let h = shape A ! 0; w = shape A ! 1; c = shape A ! 2
      in \<lparr>shape = [h, w], elems = map (\<lambda>k. elems A ! (k * c)) [0..<h * w]\<rparr>)"

text \<open>
  What \<^verbatim>\<open>pixmap2image2np\<close> stores in \<^verbatim>\<open>self.npImage\<close> for an image: the array of
  \<^verbatim>\<open>qimage2np\<close>, cut to its first channel when the image is all gray and the array
  3-dimensional.
\<close>

definition array_of_image :: "toolkit \<Rightarrow> qimage \<Rightarrow> ndarray" where
  "array_of_image tk i =
     (let gray = (if \<not> im_isNull i then allGray tk i else False); A = qimage2np tk i
      in if gray \<and> length (shape A) = 3 then channel0 A else A)"

definition pixmap2image2np :: "toolkit \<Rightarrow> window \<Rightarrow> window" where
  "pixmap2image2np tk s =
     (let s1 = s\<lparr>curItem := Some (pixmap s),
                 sceneRect := (pm_width (pixmap s), pm_height (pixmap s))\<rparr>;
          s2 = setIsAllGray tk (s1\<lparr>image := toImage tk (pixmap s1)\<rparr>);
          s3 = s2\<lparr>npImage := qimage2np tk (image s2)\<rparr>;
          s4 = (if isAllGray s3 \<and> length (shape (npImage s3)) = 3
                then s3\<lparr>npImage := channel0 (npImage s3)\<rparr> else s3)
      in scaleOne s4)"

definition np2image2pixmap :: "toolkit \<Rightarrow> ndarray \<Rightarrow> bool \<Rightarrow> window \<Rightarrow> window" where
  "np2image2pixmap tk B numpyAlso s =
     (let s1 = s\<lparr>image := np2qimage tk B\<rparr>;
          s2 = (if \<not> im_isNull (image s1)
                then (let p = fromImage tk (image s1)
                      in s1\<lparr>pixmap := p, curItem := Some p,
                            sceneRect := (pm_width p, pm_height p)\<rparr>)
                else s1);
          s3 = (if numpyAlso then s2\<lparr>npImage := B\<rparr> else s2)
      in setIsAllGray tk s3)"

section \<open>Undo\<close>

text \<open>
  \<^verbatim>\<open>undoLast\<close>: when the previous pixmap has a positive size, \<^verbatim>\<open>QPixmap.swap\<close>
  exchanges it with the current one and the other two forms are rebuilt. (Where both
  attributes name one pixmap object the swap changes nothing; exchanging two equal
  values says the same.)
\<close>

definition undoLast :: "toolkit \<Rightarrow> window \<Rightarrow> window" where
  "undoLast tk s =
     (let w = pm_width (prevPixmap s); h = pm_height (prevPixmap s)
      in if 0 < w \<and> 0 < h
         then pixmap2image2np tk (s\<lparr>pixmap := prevPixmap s, prevPixmap := pixmap s\<rparr>)
         else s)"

section \<open>Edit menu\<close>

text \<open>
  A dialog of the edit menu, as the window sees it: while it is shown it may call the
  window's preview method any number of times (\<open>tried\<close>, in order), then it returns
  the chosen values and whether it was accepted (\<^verbatim>\<open>d.result()\<close>).
\<close>

record 'v dialog =
  tried :: "'v list"
  chosen :: 'v
  accepted :: bool

text \<open>\<^verbatim>\<open>cropStart\<close> (it also arms the view's rubber band, which is not modelled).\<close>

definition cropStart :: "window \<Rightarrow> window" where
  "cropStart s = s\<lparr>cropActive := True\<rparr>"

subsection \<open>Reading a numpy array\<close>

text \<open>Number of buffer elements behind one index pair \<^verbatim>\<open>A[r, c]\<close>.\<close>

definition inner :: "ndarray \<Rightarrow> nat" where
  "inner A = prod_list (drop 2 (shape A))"

text \<open>\<^verbatim>\<open>A[r, c]\<close>: one value of a 2-dimensional array, the channels of a 3-dimensional one.\<close>

definition pixel :: "ndarray \<Rightarrow> nat \<Rightarrow> nat \<Rightarrow> nat list" where
  "pixel A r c = take (inner A) (drop ((r * (shape A ! 1) + c) * inner A) (elems A))"

text \<open>\<^verbatim>\<open>.max()\<close> of a slice: numpy raises \<^verbatim>\<open>ValueError\<close> on a slice without elements.\<close>

definition amax :: "nat list \<Rightarrow> error + nat" where
  "amax xs = (if xs = [] then Inl ValueError else Inr (fold max xs 0))"

text \<open>\<^verbatim>\<open>A[:,column].max() > 0\<close> and \<^verbatim>\<open>A[row,:].max() > 0\<close> of the gray scale branch.\<close>

definition column_lit :: "ndarray \<Rightarrow> nat \<Rightarrow> error + bool" where
  "column_lit A c =
     (case amax (concat (map (\<lambda>r. pixel A r c) [0..<shape A ! 0])) of
        Inl e \<Rightarrow> Inl e | Inr m \<Rightarrow> Inr (0 < m))"

definition row_lit :: "ndarray \<Rightarrow> nat \<Rightarrow> error + bool" where
  "row_lit A r =
     (case amax (concat (map (\<lambda>c. pixel A r c) [0..<shape A ! 1])) of
        Inl e \<Rightarrow> Inl e | Inr m \<Rightarrow> Inr (0 < m))"

text \<open>
  The colour branch asks channel 0, then 1, then 2, and \<^verbatim>\<open>or\<close> stops at the first
  channel with a positive maximum.
\<close>

fun any_channel_lit :: "(nat \<Rightarrow> nat list) \<Rightarrow> nat list \<Rightarrow> error + bool" where
  "any_channel_lit sl [] = Inr False"
| "any_channel_lit sl (ch # chs) =
     (case amax (sl ch) of
        Inl e \<Rightarrow> Inl e
      | Inr m \<Rightarrow> if 0 < m then Inr True else any_channel_lit sl chs)"

definition column_lit3 :: "ndarray \<Rightarrow> nat \<Rightarrow> error + bool" where
  "column_lit3 A c =
     any_channel_lit (\<lambda>ch. map (\<lambda>r. pixel A r c ! ch) [0..<shape A ! 0]) [0, 1, 2]"

definition row_lit3 :: "ndarray \<Rightarrow> nat \<Rightarrow> error + bool" where
  "row_lit3 A r =
     any_channel_lit (\<lambda>ch. map (\<lambda>c. pixel A r c ! ch) [0..<shape A ! 1]) [0, 1, 2]"

text \<open>
  \<^verbatim>\<open>for i in ...: if lit(i): break  else: n += 1\<close>: the number of indices before the
  first lit one.
\<close>

fun count_black :: "(nat \<Rightarrow> error + bool) \<Rightarrow> nat list \<Rightarrow> error + nat" where
  "count_black lit [] = Inr 0"
| "count_black lit (i # is) =
     (case lit i of
        Inl e \<Rightarrow> Inl e
      | Inr True \<Rightarrow> Inr 0
      | Inr False \<Rightarrow> (case count_black lit is of Inl e \<Rightarrow> Inl e | Inr n \<Rightarrow> Inr (Suc n)))"

text \<open>
  \<^verbatim>\<open>A[r0:r0+nr, c0:c0+nc].copy()\<close> (with \<^verbatim>\<open>,:\<close> for a colour array): a slice ends at
  the array's border when it would reach beyond it.
\<close>

definition crop_array :: "ndarray \<Rightarrow> nat \<Rightarrow> nat \<Rightarrow> nat \<Rightarrow> nat \<Rightarrow> ndarray" where
  "crop_array A r0 nr c0 nc =
     (let rs = [min r0 (shape A ! 0)..<min (r0 + nr) (shape A ! 0)];
          cs = [min c0 (shape A ! 1)..<min (c0 + nc) (shape A ! 1)]
      in \<lparr>shape = [length rs, length cs] @ drop 2 (shape A),
          elems = concat (map (\<lambda>r. concat (map (\<lambda>c. pixel A r c) cs)) rs)\<rparr>)"

definition is_color :: "ndarray \<Rightarrow> bool" where
  "is_color A \<longleftrightarrow> length (shape A) = 3 \<and> 3 \<le> shape A ! 2"

text \<open>
  The four margins \<^verbatim>\<open>(left, right, top, bottom)\<close> of the small-rectangle branch of
  \<^verbatim>\<open>cropEnd\<close>. \<^verbatim>\<open>A.shape[1]\<close> raises \<^verbatim>\<open>IndexError\<close> on a 1-dimensional array.
\<close>

definition black_margins :: "ndarray \<Rightarrow> error + (nat \<times> nat \<times> nat \<times> nat)" where
  "black_margins A =
     (if length (shape A) < 2 then Inl IndexError
      else
        (let cols = [0..<shape A ! 1]; rows = [0..<shape A ! 0];
             clit = (if is_color A then column_lit3 A else column_lit A);
             rlit = (if is_color A then row_lit3 A else row_lit A)
         in case count_black clit cols of Inl e \<Rightarrow> Inl e | Inr left \<Rightarrow>
            (case count_black clit (rev cols) of Inl e \<Rightarrow> Inl e | Inr right \<Rightarrow>
            (case count_black rlit rows of Inl e \<Rightarrow> Inl e | Inr top' \<Rightarrow>
            (case count_black rlit (rev rows) of Inl e \<Rightarrow> Inl e | Inr bottom \<Rightarrow>
               Inr (left, right, top', bottom))))))"

subsection \<open>Crop\<close>

definition cropEnd :: "toolkit \<Rightarrow> qrect \<Rightarrow> window \<Rightarrow> error + window" where
  "cropEnd tk rectangle s =
     (if \<not> cropActive s then Inr s
      else
        (let s0 = s\<lparr>cropActive := False\<rparr>; w = rw rectangle; h = rh rectangle
         in if 5 < w \<and> 5 < h
            then
              (let s1 = s0\<lparr>prevPixmap := pixmap s0\<rparr>;
                   s2 = s1\<lparr>pixmap := pm_copy tk (prevPixmap s1) (rx rectangle) (ry rectangle) w h\<rparr>
               in Inr (pixmap2image2np tk s2))
            else
              (let A = npImage s0
               in case black_margins A of
                    Inl e \<Rightarrow> Inl e
                  | Inr (left, right, top', bottom) \<Rightarrow>
                      (let w = int (shape A ! 1) - int left - int right;
                           h = int (shape A ! 0) - int top' - int bottom
                       in if 0 < max (max left right) (max top' bottom)
                          then
                            (if w \<le> 0 \<or> h \<le> 0 then Inr s0
                             else
                               (let s1 = s0\<lparr>prevPixmap := pixmap s0\<rparr>;
                                    B = crop_array A top' (nat w) left (nat w)
                                in Inr (setIsAllGray tk (np2image2pixmap tk B True s1))))
                          else Inr s0))))"

subsection \<open>Resize and gray scale\<close>

definition resizeImage :: "toolkit \<Rightarrow> bool \<Rightarrow> int \<times> int \<Rightarrow> window \<Rightarrow> window" where
  "resizeImage tk ok newSize s =
     (let B = npImage s; oldPixmap = prevPixmap s; s1 = s\<lparr>prevPixmap := pixmap s\<rparr>
      in if ok
         then
           (let s2 = np2image2pixmap tk (cv_resize tk B (fst newSize) (snd newSize)) True s1
            in s2\<lparr>sceneRect := (pm_width (pixmap s2), pm_height (pixmap s2))\<rparr>)
         else s1\<lparr>prevPixmap := oldPixmap\<rparr>)"

text \<open>
  \<^verbatim>\<open>toGray\<close>: with five or more channels neither conversion is chosen and the use of
  \<^verbatim>\<open>B\<close> raises \<^verbatim>\<open>UnboundLocalError\<close>.
\<close>

definition toGray :: "toolkit \<Rightarrow> window \<Rightarrow> error + window" where
  "toGray tk s =
     (if length (shape (npImage s)) = 3 \<and> 3 \<le> shape (npImage s) ! 2
      then
        (let s1 = s\<lparr>prevPixmap := pixmap s\<rparr>; c = shape (npImage s1) ! 2
         in if c = 4 then Inr (np2image2pixmap tk (cvt_BGRA2GRAY tk (npImage s1)) True s1)
            else if c = 3 then Inr (np2image2pixmap tk (cvt_BGR2GRAY tk (npImage s1)) True s1)
            else Inl UnboundLocalError)
      else Inr s)"

subsection \<open>Edges, filter, threshold: preview and commit\<close>

definition tryEdges :: "toolkit \<Rightarrow> int \<times> int \<Rightarrow> window \<Rightarrow> window" where
  "tryEdges tk v s =
     np2image2pixmap tk (edge_magnitude tk (npImage s) (fst v) (snd v)) False s"

definition tryFilter :: "toolkit \<Rightarrow> int list \<times> int \<Rightarrow> window \<Rightarrow> window" where
  "tryFilter tk v s =
     np2image2pixmap tk (filter_response tk (npImage s) (fst v) (snd v)) False s"

definition binary_of :: "toolkit \<Rightarrow> ndarray \<Rightarrow> int \<Rightarrow> ndarray" where
  "binary_of tk B t = (if t < 2 then threshold_otsu tk B else threshold_binary tk B t)"

definition tryBinary :: "toolkit \<Rightarrow> int \<Rightarrow> window \<Rightarrow> window" where
  "tryBinary tk t s = np2image2pixmap tk (binary_of tk (npImage s) t) False s"

text \<open>
  The three dialog methods share their frame: remember the undo slot, put the current
  pixmap there, run the dialog (its previews act on the window), then either commit
  the result computed from the array read at the start, or restore.
\<close>

definition restore :: "toolkit \<Rightarrow> qpixmap \<Rightarrow> window \<Rightarrow> window" where
  "restore tk oldPixmap s =
     (pixmap2image2np tk (s\<lparr>pixmap := prevPixmap s\<rparr>))\<lparr>prevPixmap := oldPixmap\<rparr>"

definition toEdges :: "toolkit \<Rightarrow> (int \<times> int) dialog \<Rightarrow> window \<Rightarrow> window" where
  "toEdges tk d s =
     (let B = npImage s; oldPixmap = prevPixmap s; s1 = s\<lparr>prevPixmap := pixmap s\<rparr>;
          s2 = fold (tryEdges tk) (tried d) s1
      in if accepted d
         then np2image2pixmap tk (edge_magnitude tk B (fst (chosen d)) (snd (chosen d))) True s2
         else restore tk oldPixmap s2)"

definition filterImage :: "toolkit \<Rightarrow> (int list \<times> int) dialog \<Rightarrow> window \<Rightarrow> window" where
  "filterImage tk d s =
     (let B = npImage s; oldPixmap = prevPixmap s; s1 = s\<lparr>prevPixmap := pixmap s\<rparr>;
          s2 = fold (tryFilter tk) (tried d) s1
      in if accepted d
         then np2image2pixmap tk
                (if 1 < length (fst (chosen d))
                 then filter_response tk B (fst (chosen d)) (snd (chosen d))
                 else filter_response tk (npImage s2) (fst (chosen d)) (snd (chosen d)))
                True s2
         else restore tk oldPixmap s2)"

definition toBinary :: "toolkit \<Rightarrow> int dialog \<Rightarrow> window \<Rightarrow> window" where
  "toBinary tk d s =
     (let B = npImage s; oldPixmap = prevPixmap s; s1 = s\<lparr>prevPixmap := pixmap s\<rparr>;
          s2 = fold (tryBinary tk) (tried d) s1
      in if accepted d then np2image2pixmap tk (binary_of tk B (chosen d)) True s2
         else restore tk oldPixmap s2)"

section \<open>Homework menu\<close>

text \<open>
  \<^verbatim>\<open>drawlines\<close>: the lines found in the gray version of the array are drawn on a
  colour copy of that gray version, which is shown with \<^verbatim>\<open>numpyAlso=False\<close>.
\<close>

definition drawlines :: "toolkit \<Rightarrow> window \<Rightarrow> window" where
  "drawlines tk s =
     (let img = npImage s; gray = cvt_BGR2GRAY tk img;
          img_bgr = hough_lines_drawn tk gray (cvt_GRAY2BGR tk gray)
      in np2image2pixmap tk img_bgr False s)"

text \<open>
  \<^verbatim>\<open>detectCornersHarris\<close>: every step assigns to or draws on \<^verbatim>\<open>self.npImage\<close> itself,
  which is then shown. (\<^verbatim>\<open>max\<close> of an empty shape raises inside the method's
  \<^verbatim>\<open>try\<close>, whose handler only prints.)
\<close>

definition detectCornersHarris :: "toolkit \<Rightarrow> window \<Rightarrow> window" where
  "detectCornersHarris tk s =
     (if shape (npImage s) = [] then s else
      let max_dim = 1000;
          s1 = (if max_dim < fold max (take 2 (shape (npImage s))) 0
                then s\<lparr>npImage := cv_resize_max tk (npImage s) max_dim\<rparr> else s);
          A = npImage s1;
          gray_image = (if length (shape A) = 3 \<and> shape A ! 2 = 3 then cvt_BGR2GRAY tk A
                        else if length (shape A) = 3 \<and> shape A ! 2 = 4 then cvt_BGRA2GRAY tk A
                        else A);
          s2 = (if length (shape A) = 2 then s1\<lparr>npImage := cvt_GRAY2BGR tk A\<rparr> else s1);
          s3 = s2\<lparr>npImage := harris_circles_drawn tk gray_image (npImage s2)\<rparr>
      in np2image2pixmap tk (npImage s3) False s3)"

section \<open>Camera window\<close>

text \<open>
  \<^verbatim>\<open>appImageViewer2O.py\<close> extends the window by a camera. Every call into the vendor
  SDK is recorded, in order, in \<open>sdk_calls\<close>.
\<close>

datatype sdk_call =
  CamInit | SetColormode | SetAoi | Alloc | CamExit
  | FreezeVideo | WaitForNextImage | SetFrameRate | Exposure | Focus

record camwindow = window +
  cam :: "unit option"
  camOn :: bool
  mouseTracking :: bool
  sdk_calls :: "sdk_call list"

text \<open>
  \<^verbatim>\<open>cameraOn\<close>. \<^verbatim>\<open>self.cam.init()\<close> "gives error when camera not connected":
  \<open>init_ok\<close> says whether it returns, and when it raises the window is left as it is
  at that point.
\<close>

definition cameraOn :: "bool \<Rightarrow> bool \<Rightarrow> camwindow \<Rightarrow> (error \<times> camwindow) + camwindow" where
  "cameraOn ueyeOK init_ok s =
     (if ueyeOK \<and> \<not> camOn s
      then
        (let s1 = s\<lparr>cam := Some (), sdk_calls := sdk_calls s @ [CamInit]\<rparr>
         in if \<not> init_ok then Inl (CameraError, s1)
            else Inr (s1\<lparr>sdk_calls := sdk_calls s1 @ [SetColormode, SetAoi, Alloc],
                         camOn := True\<rparr>))
      else Inr s)"

definition printCameraInfo :: "bool \<Rightarrow> camwindow \<Rightarrow> camwindow" where
  "printCameraInfo ueyeOK s =
     (if ueyeOK \<and> camOn s
      then s\<lparr>sdk_calls := sdk_calls s @
              [SetFrameRate, Exposure, Exposure, Exposure, Focus, Focus, Focus,
               Exposure, Exposure, Exposure]\<rparr>
      else s)"

text \<open>\<^verbatim>\<open>npImage.size\<close>, and \<^verbatim>\<open>tempBilde[:,:,[0,1,2]]\<close>.\<close>

definition array_size :: "ndarray \<Rightarrow> nat" where
  "array_size A = prod_list (shape A)"

definition first3 :: "ndarray \<Rightarrow> error + ndarray" where
  "first3 A =
     (if length (shape A) < 3 \<or> shape A ! 2 < 3 then Inl IndexError
      else
        (let k = prod_list (drop 3 (shape A)); c = shape A ! 2
         in Inr \<lparr>shape = [shape A ! 0, shape A ! 1, 3] @ drop 3 (shape A),
                 elems = concat (map (\<lambda>p. take (3 * k) (drop (p * c * k) (elems A)))
                                      [0..<shape A ! 0 * shape A ! 1])\<rparr>))"

text \<open>\<^verbatim>\<open>copy_image\<close>, given the frame \<^verbatim>\<open>image_data.as_1d_image()\<close>.\<close>

definition copy_image :: "ndarray \<Rightarrow> camwindow \<Rightarrow> error + camwindow" where
  "copy_image tempBilde s =
     (if elems tempBilde = [] then Inl ValueError
      else if fold min (elems tempBilde) (hd (elems tempBilde))
              \<noteq> fold max (elems tempBilde) 0
      then (case first3 tempBilde of Inl e \<Rightarrow> Inl e | Inr A \<Rightarrow> Inr (s\<lparr>npImage := A\<rparr>))
      else Inr (s\<lparr>npImage := empty_array\<rparr>))"

text \<open>
  The body shared by \<^verbatim>\<open>getOneImage\<close> and \<^verbatim>\<open>getOneImageV2\<close>: \<open>got\<close> says whether
  \<^verbatim>\<open>is_WaitForNextImage\<close> returned \<^verbatim>\<open>IS_SUCCESS\<close>, \<open>frame\<close> is the image it delivered.
\<close>

definition capture :: "toolkit \<Rightarrow> bool \<Rightarrow> ndarray \<Rightarrow> camwindow \<Rightarrow> (error \<times> camwindow) + camwindow" where
  "capture tk got frame s =
     (let s1 = s\<lparr>mouseTracking := False,
                 sdk_calls := sdk_calls s @ [FreezeVideo, WaitForNextImage]\<rparr>
      in if got
         then
           (case copy_image frame s1 of
              Inl e \<Rightarrow> Inl (e, s1)
            | Inr s2 \<Rightarrow>
                Inr (setIsAllGray tk
                  (if 0 < array_size (npImage s2)
                   then
                     (let s3 = s2\<lparr>image := np2qimage tk (npImage s2)\<rparr>
                      in if \<not> im_isNull (image s3)
                         then
                           (let p = fromImage tk (image s3);
                                s4 = s3\<lparr>pixmap := p, curItem := Some p,
                                        sceneRect := (pm_width p, pm_height p)\<rparr>
                            in (scaleOne s4)\<lparr>mouseTracking := True\<rparr>)
                         else s3\<lparr>pixmap := null_pixmap\<rparr>)
                   else s2\<lparr>image := null_image, pixmap := null_pixmap\<rparr>)))
         else Inr (setIsAllGray tk s1))"

definition getOneImageV2 ::
  "toolkit \<Rightarrow> bool \<Rightarrow> bool \<Rightarrow> ndarray \<Rightarrow> camwindow \<Rightarrow> (error \<times> camwindow) + camwindow" where
  "getOneImageV2 tk ueyeOK got frame s =
     (if \<not> (ueyeOK \<and> camOn s) then Inr s else capture tk got frame s)"

definition getOneImage ::
  "toolkit \<Rightarrow> bool \<Rightarrow> bool \<Rightarrow> ndarray \<Rightarrow> camwindow \<Rightarrow> (error \<times> camwindow) + camwindow" where
  "getOneImage tk ueyeOK got frame s =
     (if ueyeOK \<and> camOn s then capture tk got frame s else Inr s)"

definition cameraOff :: "bool \<Rightarrow> camwindow \<Rightarrow> camwindow" where
  "cameraOff ueyeOK s =
     (if ueyeOK \<and> camOn s
      then s\<lparr>sdk_calls := sdk_calls s @ [CamExit], camOn := False\<rparr>
      else s)"

text \<open>
  The actions of the camera menu, each with what the SDK answers, and a run of them.
  An exception ends the run.
\<close>

datatype action =
  CameraOn bool | PrintCameraInfo | GetOneImage bool ndarray
  | GetOneImageV2 bool ndarray | CameraOff

fun step :: "toolkit \<Rightarrow> bool \<Rightarrow> action \<Rightarrow> camwindow \<Rightarrow> (error \<times> camwindow) + camwindow" where
  "step tk ueyeOK (CameraOn init_ok) s = cameraOn ueyeOK init_ok s"
| "step tk ueyeOK PrintCameraInfo s = Inr (printCameraInfo ueyeOK s)"
| "step tk ueyeOK (GetOneImage got frame) s = getOneImage tk ueyeOK got frame s"
| "step tk ueyeOK (GetOneImageV2 got frame) s = getOneImageV2 tk ueyeOK got frame s"
| "step tk ueyeOK CameraOff s = Inr (cameraOff ueyeOK s)"

fun run :: "toolkit \<Rightarrow> bool \<Rightarrow> action list \<Rightarrow> camwindow \<Rightarrow> (error \<times> camwindow) + camwindow" where
  "run tk ueyeOK [] s = Inr s"
| "run tk ueyeOK (a # as) s =
     (case step tk ueyeOK a s of Inl e \<Rightarrow> Inl e | Inr s' \<Rightarrow> run tk ueyeOK as s')"

text \<open>The window a run ends in, whether it ended by an exception or not.\<close>

definition final :: "(error \<times> camwindow) + camwindow \<Rightarrow> camwindow" where
  "final r = (case r of Inl (e, s) \<Rightarrow> s | Inr s \<Rightarrow> s)"

text \<open>
  Reading a record of SDK calls: the camera is on from \<open>Alloc\<close>, the last call of
  \<^verbatim>\<open>cameraOn\<close>, to \<open>CamExit\<close>. A record is \<open>guarded\<close> when the camera is initialised
  only while off, and grabs, queries and the exit happen only while on.
\<close>

fun on_after :: "bool \<Rightarrow> sdk_call list \<Rightarrow> bool" where
  "on_after on [] = on"
| "on_after on (Alloc # cs) = on_after True cs"
| "on_after on (CamExit # cs) = on_after False cs"
| "on_after on (c # cs) = on_after on cs"

fun guarded :: "bool \<Rightarrow> sdk_call list \<Rightarrow> bool" where
  "guarded on [] = True"
| "guarded on (CamInit # cs) = (\<not> on \<and> guarded on cs)"
| "guarded on (SetColormode # cs) = (\<not> on \<and> guarded on cs)"
| "guarded on (SetAoi # cs) = (\<not> on \<and> guarded on cs)"
| "guarded on (Alloc # cs) = (\<not> on \<and> guarded True cs)"
| "guarded on (CamExit # cs) = (on \<and> guarded False cs)"
| "guarded on (c # cs) = (on \<and> guarded on cs)"

text \<open>
  What every window reached from a fresh one satisfies: its record of calls is guarded,
  \<open>camOn\<close> tells whether the record leaves the camera on, and the camera is on only
  where the SDK is available.
\<close>

definition cam_invariant :: "bool \<Rightarrow> camwindow \<Rightarrow> bool" where
  "cam_invariant ueyeOK s \<longleftrightarrow>
     guarded False (sdk_calls s) \<and> on_after False (sdk_calls s) = camOn s \<and>
     (camOn s \<longrightarrow> ueyeOK)"

section \<open>When the three forms show one picture\<close>

text \<open>
  The forms are linked when they are conversions of each other, in the direction of
  \<^verbatim>\<open>np2image2pixmap\<close> (array to image to pixmap) or of \<^verbatim>\<open>pixmap2image2np\<close> (pixmap
  to image to array).
\<close>

definition committed :: "toolkit \<Rightarrow> window \<Rightarrow> bool" where
  "committed tk s \<longleftrightarrow>
     image s = np2qimage tk (npImage s) \<and> pixmap s = fromImage tk (image s)"

definition rebuilt :: "toolkit \<Rightarrow> window \<Rightarrow> bool" where
  "rebuilt tk s \<longleftrightarrow>
     image s = toImage tk (pixmap s) \<and> npImage s = array_of_image tk (image s)"

definition linked :: "toolkit \<Rightarrow> window \<Rightarrow> bool" where
  "linked tk s \<longleftrightarrow> committed tk s \<or> rebuilt tk s"

definition same_size :: "window \<Rightarrow> bool" where
  "same_size s \<longleftrightarrow>
     pm_width (pixmap s) = im_width (image s) \<and>
     pm_height (pixmap s) = im_height (image s) \<and>
     2 \<le> length (shape (npImage s)) \<and>
     int (shape (npImage s) ! 1) = im_width (image s) \<and>
     int (shape (npImage s) ! 0) = im_height (image s)"

definition in_sync :: "toolkit \<Rightarrow> window \<Rightarrow> bool" where
  "in_sync tk s \<longleftrightarrow> linked tk s \<and> same_size s"

text \<open>The gray version \<^verbatim>\<open>toGray\<close> computes for an array of 3 or of 4 channels.\<close>

definition gray_of :: "toolkit \<Rightarrow> ndarray \<Rightarrow> ndarray" where
  "gray_of tk A = (if shape A ! 2 = 4 then cvt_BGRA2GRAY tk A else cvt_BGR2GRAY tk A)"

text \<open>
  What is expected of the conversions: they keep width and height, where an array has
  its height in \<^verbatim>\<open>shape[0]\<close> and its width in \<^verbatim>\<open>shape[1]\<close>.
\<close>

definition keeps_size :: "toolkit \<Rightarrow> bool" where
  "keeps_size tk \<longleftrightarrow>
     (\<forall>i. pm_width (fromImage tk i) = im_width i \<and> pm_height (fromImage tk i) = im_height i) \<and>
     (\<forall>p. im_width (toImage tk p) = pm_width p \<and> im_height (toImage tk p) = pm_height p) \<and>
     (\<forall>A. \<not> im_isNull (np2qimage tk A) \<longrightarrow>
          2 \<le> length (shape A) \<and>
          int (shape A ! 1) = im_width (np2qimage tk A) \<and>
          int (shape A ! 0) = im_height (np2qimage tk A)) \<and>
     (\<forall>i. \<not> im_isNull i \<longrightarrow>
          2 \<le> length (shape (qimage2np tk i)) \<and>
          int (shape (qimage2np tk i) ! 1) = im_width i \<and>
          int (shape (qimage2np tk i) ! 0) = im_height i)"

text \<open>
  What is expected of \<^verbatim>\<open>QPixmap.copy\<close> for a rectangle that lies within the pixmap:
  the copy has the size of the rectangle.
\<close>

definition inside :: "qrect \<Rightarrow> qpixmap \<Rightarrow> bool" where
  "inside r p \<longleftrightarrow>
     0 \<le> rx r \<and> 0 \<le> ry r \<and> 0 < rw r \<and> 0 < rh r \<and>
     rx r + rw r \<le> pm_width p \<and> ry r + rh r \<le> pm_height p"

definition copy_fits :: "toolkit \<Rightarrow> bool" where
  "copy_fits tk \<longleftrightarrow>
     (\<forall>p r. inside r p \<longrightarrow>
        pm_width (pm_copy tk p (rx r) (ry r) (rw r) (rh r)) = rw r \<and>
        pm_height (pm_copy tk p (rx r) (ry r) (rw r) (rh r)) = rh r)"

section \<open>A small toolkit to run the methods\<close>

text \<open>
  An executable toolkit in which a pixmap and an image keep the bytes of the array
  they were made from, one byte per channel. It serves to evaluate the methods on
  concrete windows.
\<close>

definition sample_toImage :: "qpixmap \<Rightarrow> qimage" where
  "sample_toImage p =
     \<lparr>im_width = pm_width p, im_height = pm_height p, im_depth = pm_depth p,
      im_bits = pm_bits p\<rparr>"

definition sample_fromImage :: "qimage \<Rightarrow> qpixmap" where
  "sample_fromImage i =
     \<lparr>pm_width = im_width i, pm_height = im_height i, pm_depth = im_depth i,
      pm_bits = im_bits i\<rparr>"

text \<open>The copy of a rectangle is cut at the border of the pixmap.\<close>

definition sample_copy :: "qpixmap \<Rightarrow> int \<Rightarrow> int \<Rightarrow> int \<Rightarrow> int \<Rightarrow> qpixmap" where
  "sample_copy p x y w h =
     (let x0 = max 0 x; y0 = max 0 y;
          x1 = min (pm_width p) (x + w); y1 = min (pm_height p) (y + h);
          c = pm_depth p div 8
      in if x1 \<le> x0 \<or> y1 \<le> y0 then null_pixmap
         else \<lparr>pm_width = x1 - x0, pm_height = y1 - y0, pm_depth = pm_depth p,
               pm_bits = concat (map (\<lambda>r. take (nat (x1 - x0) * c)
                                      (drop ((r * nat (pm_width p) + nat x0) * c) (pm_bits p)))
                                 [nat y0..<nat y1])\<rparr>)"

definition sample_allGray :: "qimage \<Rightarrow> bool" where
  "sample_allGray i =
     (let c = im_depth i div 8
      in list_all (\<lambda>k. list_all (\<lambda>v. v = im_bits i ! (k * c)) (take c (drop (k * c) (im_bits i))))
           [0..<nat (im_width i) * nat (im_height i)])"

definition sample_qimage2np :: "qimage \<Rightarrow> ndarray" where
  "sample_qimage2np i =
     (if im_isNull i then empty_array
      else if im_depth i = 8
      then \<lparr>shape = [nat (im_height i), nat (im_width i)], elems = im_bits i\<rparr>
      else \<lparr>shape = [nat (im_height i), nat (im_width i), im_depth i div 8],
            elems = im_bits i\<rparr>)"

definition sample_np2qimage :: "ndarray \<Rightarrow> qimage" where
  "sample_np2qimage A =
     (if length (shape A) = 2
      then \<lparr>im_width = int (shape A ! 1), im_height = int (shape A ! 0), im_depth = 8,
            im_bits = elems A\<rparr>
      else if length (shape A) = 3 \<and> (shape A ! 2 = 3 \<or> shape A ! 2 = 4)
      then \<lparr>im_width = int (shape A ! 1), im_height = int (shape A ! 0),
            im_depth = 8 * (shape A ! 2), im_bits = elems A\<rparr>
      else null_image)"

definition sample_gray :: "ndarray \<Rightarrow> ndarray" where
  "sample_gray A =
     (let c = shape A ! 2
      in \<lparr>shape = [shape A ! 0, shape A ! 1],
          elems = map (\<lambda>k. (114 * (elems A ! (k * c)) + 587 * (elems A ! (k * c + 1))
                             + 299 * (elems A ! (k * c + 2)) + 500) div 1000)
                      [0..<shape A ! 0 * shape A ! 1]\<rparr>)"

definition sample_gray2bgr :: "ndarray \<Rightarrow> ndarray" where
  "sample_gray2bgr A = \<lparr>shape = shape A @ [3], elems = concat (map (\<lambda>v. [v, v, v]) (elems A))\<rparr>"

definition sample_resize :: "ndarray \<Rightarrow> int \<Rightarrow> int \<Rightarrow> ndarray" where
  "sample_resize A w h =
     \<lparr>shape = [nat h, nat w] @ drop 2 (shape A),
      elems = concat (map (\<lambda>r. concat (map (\<lambda>c.
                  pixel A (r * (shape A ! 0) div nat h) (c * (shape A ! 1) div nat w))
                [0..<nat w])) [0..<nat h])\<rparr>"

definition sample_resize_max :: "ndarray \<Rightarrow> nat \<Rightarrow> ndarray" where
  "sample_resize_max A m =
     (let big = max (shape A ! 0) (shape A ! 1)
      in sample_resize A (int (shape A ! 1 * m div big)) (int (shape A ! 0 * m div big)))"

definition sample_edges :: "ndarray \<Rightarrow> int \<Rightarrow> int \<Rightarrow> ndarray" where
  "sample_edges A k sm =
     \<lparr>shape = shape A,
      elems = map (\<lambda>(a, b). if a \<le> b then b - a else a - b)
                  (zip (elems A) (drop 1 (elems A) @ take 1 (rev (elems A))))\<rparr>"

definition sample_filter :: "ndarray \<Rightarrow> int list \<Rightarrow> int \<Rightarrow> ndarray" where
  "sample_filter A h sm =
     \<lparr>shape = shape A,
      elems = map (\<lambda>v. nat (min 255 (max 0 (sum_list h * int v)))) (elems A)\<rparr>"

definition sample_binary :: "ndarray \<Rightarrow> int \<Rightarrow> ndarray" where
  "sample_binary A t =
     \<lparr>shape = shape A, elems = map (\<lambda>v. if t < int v then 255 else 0) (elems A)\<rparr>"

definition sample_otsu :: "ndarray \<Rightarrow> ndarray" where
  "sample_otsu A = sample_binary A (int (sum_list (elems A) div length (elems A)))"

definition sample_toolkit :: toolkit where
  "sample_toolkit =
     \<lparr>toImage = sample_toImage, fromImage = sample_fromImage, pm_copy = sample_copy,
      allGray = sample_allGray, qimage2np = sample_qimage2np, np2qimage = sample_np2qimage,
      cvt_BGR2GRAY = sample_gray, cvt_BGRA2GRAY = sample_gray,
      cvt_GRAY2BGR = sample_gray2bgr, cv_resize = sample_resize,
      cv_resize_max = sample_resize_max, edge_magnitude = sample_edges,
      filter_response = sample_filter, threshold_otsu = sample_otsu,
      threshold_binary = sample_binary,
      hough_lines_drawn = (\<lambda>gray img. img), harris_circles_drawn = (\<lambda>gray img. img)\<rparr>"

text \<open>The window right after \<^verbatim>\<open>__init__\<close> without a file.\<close>

definition initial_window :: window where
  "initial_window =
     \<lparr>pixmap = null_pixmap, prevPixmap = null_pixmap, image = null_image,
      isAllGray = False, npImage = empty_array, cropActive = False, curItem = None,
      sceneRect = (0, 0), viewTransform = Identity, scaleUpFactor = sqrt 2\<rparr>"

text \<open>The window showing array \<open>A\<close> with pixmap \<open>q\<close> in the undo slot.\<close>

definition showing :: "ndarray \<Rightarrow> qpixmap \<Rightarrow> window" where
  "showing A q =
     \<lparr>pixmap = sample_fromImage (sample_np2qimage A), prevPixmap = q,
      image = sample_np2qimage A, isAllGray = sample_allGray (sample_np2qimage A),
      npImage = A, cropActive = False,
      curItem = Some (sample_fromImage (sample_np2qimage A)),
      sceneRect = (int (shape A ! 1), int (shape A ! 0)),
      viewTransform = Identity, scaleUpFactor = sqrt 2\<rparr>"

definition gray_2x1 :: ndarray where
  "gray_2x1 = \<lparr>shape = [1, 2], elems = [3, 4]\<rparr>"

definition gray_1x1 :: ndarray where
  "gray_1x1 = \<lparr>shape = [1, 1], elems = [9]\<rparr>"

definition color_1x1 :: ndarray where
  "color_1x1 = \<lparr>shape = [1, 1, 3], elems = [10, 20, 30]\<rparr>"

text \<open>A gray picture of 3 rows and 4 columns: two lit pixels in a black frame.\<close>

definition framed :: ndarray where
  "framed = \<lparr>shape = [3, 4], elems = [0, 0, 0, 0,  0, 5, 7, 0,  0, 0, 0, 0]\<rparr>"

text \<open>A gray picture of 8 rows and 8 columns, the value of a pixel its buffer index.\<close>

definition gray_8x8 :: ndarray where
  "gray_8x8 = \<lparr>shape = [8, 8], elems = [0..<64]\<rparr>"

text \<open>A colour picture of one pixel as \<^verbatim>\<open>drawlines\<close> leaves it, and a cancelled dialog.\<close>

definition after_drawlines :: window where
  "after_drawlines = drawlines sample_toolkit (showing color_1x1 null_pixmap)"

definition cancelled :: "int dialog" where
  "cancelled = \<lparr>tried = [], chosen = 100, accepted = False\<rparr>"

text \<open>Accepted dialogs, one preview each, and a window in which cropping is active.\<close>

definition ok_edges :: "(int \<times> int) dialog" where
  "ok_edges = \<lparr>tried = [(3, 1)], chosen = (3, 1), accepted = True\<rparr>"

definition ok_filter :: "(int list \<times> int) dialog" where
  "ok_filter = \<lparr>tried = [([1, 1], 1)], chosen = ([1, 1], 1), accepted = True\<rparr>"

definition ok_binary :: "int dialog" where
  "ok_binary = \<lparr>tried = [5], chosen = 3, accepted = True\<rparr>"

definition big_rect :: qrect where
  "big_rect = \<lparr>rx = 1, ry = 1, rw = 6, rh = 6\<rparr>"

text \<open>A rectangle that reaches beyond a picture of 8 rows and 8 columns.\<close>

definition edge_rect :: qrect where
  "edge_rect = \<lparr>rx = 4, ry = 4, rw = 6, rh = 6\<rparr>"

definition pm_of :: "ndarray \<Rightarrow> qpixmap" where
  "pm_of A = sample_fromImage (sample_np2qimage A)"

definition crop_ready :: window where
  "crop_ready = (showing gray_8x8 (pm_of gray_1x1))\<lparr>cropActive := True\<rparr>"

definition color_shown :: window where
  "color_shown = showing color_1x1 (pm_of gray_1x1)"

definition cancelled_edges :: "(int \<times> int) dialog" where
  "cancelled_edges = \<lparr>tried = [(3, 1)], chosen = (5, 1), accepted = False\<rparr>"

definition cancelled_filter :: "(int list \<times> int) dialog" where
  "cancelled_filter = \<lparr>tried = [([1, 1], 1)], chosen = ([2], 1), accepted = False\<rparr>"

text \<open>
  The camera window right after \<^verbatim>\<open>__init__\<close>, the same with the camera switched on, a
  frame of two colour pixels, and a session at the camera menu.
\<close>

definition cam_initial :: camwindow where
  "cam_initial =
     \<lparr>pixmap = null_pixmap, prevPixmap = null_pixmap, image = null_image,
      isAllGray = False, npImage = empty_array, cropActive = False, curItem = None,
      sceneRect = (0, 0), viewTransform = Identity, scaleUpFactor = sqrt 2,
      cam = None, camOn = False, mouseTracking = True, sdk_calls = []\<rparr>"

definition cam_running :: camwindow where
  "cam_running =
     cam_initial\<lparr>cam := Some (), camOn := True,
                 sdk_calls := [CamInit, SetColormode, SetAoi, Alloc]\<rparr>"

definition frame_2x1 :: ndarray where
  "frame_2x1 = \<lparr>shape = [1, 2, 3], elems = [1, 2, 3, 4, 5, 6]\<rparr>"

definition session :: "action list" where
  "session = [GetOneImage True frame_2x1, CameraOn True, GetOneImage True frame_2x1,
              CameraOff, GetOneImageV2 True frame_2x1]"

section \<open>Facts about the helpers\<close>

lemma pixmap2image2np_pixmap [simp]: "pixmap (pixmap2image2np tk s) = pixmap s"
  by (simp add: pixmap2image2np_def Let_def scaleOne_def setIsAllGray_def)

lemma pixmap2image2np_prevPixmap [simp]: "prevPixmap (pixmap2image2np tk s) = prevPixmap s"
  by (simp add: pixmap2image2np_def Let_def scaleOne_def setIsAllGray_def)

lemma pixmap2image2np_image [simp]:
  "image (pixmap2image2np tk s) = toImage tk (pixmap s)"
  by (simp add: pixmap2image2np_def Let_def scaleOne_def setIsAllGray_def)

lemma pixmap2image2np_npImage [simp]:
  "npImage (pixmap2image2np tk s) = array_of_image tk (toImage tk (pixmap s))"
  by (simp add: pixmap2image2np_def array_of_image_def Let_def scaleOne_def setIsAllGray_def)

lemma pixmap2image2np_cropActive [simp]: "cropActive (pixmap2image2np tk s) = cropActive s"
  by (simp add: pixmap2image2np_def Let_def scaleOne_def setIsAllGray_def)

lemma np2image2pixmap_npImage:
  "npImage (np2image2pixmap tk B b s) = (if b then B else npImage s)"
  by (simp add: np2image2pixmap_def Let_def setIsAllGray_def)

lemma black_margins_framed: "black_margins framed = Inr (1, 1, 1, 1)"
  by code_simp

lemma crop_framed:
  "crop_array framed (Suc 0) 2 (Suc 0) 2 = \<lparr>shape = [2, 2], elems = [5, 7, 0, 0]\<rparr>"
  by code_simp

lemma np2image2pixmap_shows:
  "np2image2pixmap tk B False s =
     (if im_isNull (np2qimage tk B)
      then s\<lparr>image := np2qimage tk B, isAllGray := False\<rparr>
      else s\<lparr>image := np2qimage tk B, pixmap := fromImage tk (np2qimage tk B),
             curItem := Some (fromImage tk (np2qimage tk B)),
             sceneRect := (pm_width (fromImage tk (np2qimage tk B)),
                           pm_height (fromImage tk (np2qimage tk B))),
             isAllGray := allGray tk (np2qimage tk B)\<rparr>)"
  by (simp add: np2image2pixmap_def Let_def setIsAllGray_def)

lemma np2image2pixmap_prevPixmap [simp]:
  "prevPixmap (np2image2pixmap tk B b s) = prevPixmap s"
  by (simp add: np2image2pixmap_def Let_def setIsAllGray_def)

lemma np2image2pixmap_frame [simp]:
  "cropActive (np2image2pixmap tk B b s) = cropActive s"
  "viewTransform (np2image2pixmap tk B b s) = viewTransform s"
  "scaleUpFactor (np2image2pixmap tk B b s) = scaleUpFactor s"
  by (simp_all add: np2image2pixmap_def Let_def setIsAllGray_def)

lemma np2image2pixmap_image [simp]:
  "image (np2image2pixmap tk B b s) = np2qimage tk B"
  by (simp add: np2image2pixmap_def Let_def setIsAllGray_def)

lemma np2image2pixmap_pixmap:
  "pixmap (np2image2pixmap tk B b s) =
     (if im_isNull (np2qimage tk B) then pixmap s else fromImage tk (np2qimage tk B))"
  by (simp add: np2image2pixmap_def Let_def setIsAllGray_def)

lemma np2image2pixmap_prev_upd:
  "np2image2pixmap tk B b (s\<lparr>prevPixmap := q\<rparr>) = (np2image2pixmap tk B b s)\<lparr>prevPixmap := q\<rparr>"
  by (simp add: np2image2pixmap_def Let_def setIsAllGray_def)

lemma pixmap2image2np_prev_upd:
  "pixmap2image2np tk (s\<lparr>prevPixmap := q\<rparr>) = (pixmap2image2np tk s)\<lparr>prevPixmap := q\<rparr>"
  by (simp add: pixmap2image2np_def Let_def setIsAllGray_def scaleOne_def)

lemma fold_tryEdges:
  "npImage (fold (tryEdges tk) vs s) = npImage s \<and>
   prevPixmap (fold (tryEdges tk) vs s) = prevPixmap s \<and>
   fold (tryEdges tk) vs (s\<lparr>prevPixmap := q\<rparr>) = (fold (tryEdges tk) vs s)\<lparr>prevPixmap := q\<rparr>"
  by (induction vs arbitrary: s)
     (simp_all add: tryEdges_def np2image2pixmap_npImage np2image2pixmap_prev_upd)

lemma fold_tryFilter:
  "npImage (fold (tryFilter tk) vs s) = npImage s \<and>
   prevPixmap (fold (tryFilter tk) vs s) = prevPixmap s \<and>
   fold (tryFilter tk) vs (s\<lparr>prevPixmap := q\<rparr>) = (fold (tryFilter tk) vs s)\<lparr>prevPixmap := q\<rparr>"
  by (induction vs arbitrary: s)
     (simp_all add: tryFilter_def np2image2pixmap_npImage np2image2pixmap_prev_upd)

lemma fold_tryBinary:
  "npImage (fold (tryBinary tk) vs s) = npImage s \<and>
   prevPixmap (fold (tryBinary tk) vs s) = prevPixmap s \<and>
   fold (tryBinary tk) vs (s\<lparr>prevPixmap := q\<rparr>) = (fold (tryBinary tk) vs s)\<lparr>prevPixmap := q\<rparr>"
  by (induction vs arbitrary: s)
     (simp_all add: tryBinary_def np2image2pixmap_npImage np2image2pixmap_prev_upd)

lemma toGray_slot:
  "is_color (npImage s) \<and> shape (npImage s) ! 2 \<le> 4 \<Longrightarrow>
     (\<exists>s'. toGray tk s = Inr s' \<and> prevPixmap s' = pixmap s) \<and>
     toGray tk (s\<lparr>prevPixmap := q\<rparr>) = toGray tk s"
  by (auto simp add: toGray_def is_color_def Let_def)

lemma cropEnd_slot:
  "cropActive s \<and> 5 < rw r \<and> 5 < rh r \<Longrightarrow>
     (\<exists>s'. cropEnd tk r s = Inr s' \<and> prevPixmap s' = pixmap s) \<and>
     cropEnd tk r (s\<lparr>prevPixmap := q\<rparr>) = cropEnd tk r s"
  by (simp add: cropEnd_def Let_def)

lemma toEdges_slot:
  "accepted d \<Longrightarrow>
     prevPixmap (toEdges tk d s) = pixmap s \<and>
     toEdges tk d (s\<lparr>prevPixmap := q\<rparr>) = toEdges tk d s"
  by (simp add: toEdges_def Let_def fold_tryEdges)

lemma filterImage_slot:
  "accepted d \<Longrightarrow>
     prevPixmap (filterImage tk d s) = pixmap s \<and>
     filterImage tk d (s\<lparr>prevPixmap := q\<rparr>) = filterImage tk d s"
  by (simp add: filterImage_def Let_def fold_tryFilter)

lemma toBinary_slot:
  "accepted d \<Longrightarrow>
     prevPixmap (toBinary tk d s) = pixmap s \<and>
     toBinary tk d (s\<lparr>prevPixmap := q\<rparr>) = toBinary tk d s"
  by (simp add: toBinary_def Let_def fold_tryBinary)

lemma resizeImage_slot:
  "prevPixmap (resizeImage tk True v s) = pixmap s \<and>
   resizeImage tk True v (s\<lparr>prevPixmap := q\<rparr>) = resizeImage tk True v s"
  by (simp add: resizeImage_def Let_def)

lemma restore_fields:
  "pixmap (restore tk old s) = prevPixmap s"
  "prevPixmap (restore tk old s) = old"
  "image (restore tk old s) = toImage tk (prevPixmap s)"
  "npImage (restore tk old s) = array_of_image tk (toImage tk (prevPixmap s))"
  by (simp_all add: restore_def)

lemma sample_fields [simp]:
  "toImage sample_toolkit = sample_toImage"
  "fromImage sample_toolkit = sample_fromImage"
  "pm_copy sample_toolkit = sample_copy"
  "allGray sample_toolkit = sample_allGray"
  "qimage2np sample_toolkit = sample_qimage2np"
  "np2qimage sample_toolkit = sample_np2qimage"
  "cvt_BGR2GRAY sample_toolkit = sample_gray"
  "cvt_BGRA2GRAY sample_toolkit = sample_gray"
  "cvt_GRAY2BGR sample_toolkit = sample_gray2bgr"
  "cv_resize sample_toolkit = sample_resize"
  "edge_magnitude sample_toolkit = sample_edges"
  "filter_response sample_toolkit = sample_filter"
  "threshold_otsu sample_toolkit = sample_otsu"
  "threshold_binary sample_toolkit = sample_binary"
  "hough_lines_drawn sample_toolkit = (\<lambda>gray img. img)"
  "harris_circles_drawn sample_toolkit = (\<lambda>gray img. img)"
  by (simp_all add: sample_toolkit_def)

lemma sample_copy_fits: "copy_fits sample_toolkit"
  by (auto simp add: copy_fits_def inside_def sample_copy_def Let_def)

lemma sample_gray_color_1x1: "sample_gray color_1x1 = \<lparr>shape = [1, 1], elems = [22]\<rparr>"
  by code_simp

lemma after_drawlines_fields:
  "npImage after_drawlines = color_1x1"
  "pixmap after_drawlines = \<lparr>pm_width = 1, pm_height = 1, pm_depth = 24, pm_bits = [22, 22, 22]\<rparr>"
  "image after_drawlines = \<lparr>im_width = 1, im_height = 1, im_depth = 24, im_bits = [22, 22, 22]\<rparr>"
  by (simp_all add: after_drawlines_def drawlines_def Let_def np2image2pixmap_npImage
      np2image2pixmap_pixmap showing_def sample_gray_color_1x1 sample_gray2bgr_def
      sample_np2qimage_def sample_fromImage_def im_isNull_def)

lemma gray_pixel_array:
  "array_of_image sample_toolkit
     \<lparr>im_width = 1, im_height = 1, im_depth = 24, im_bits = [22, 22, 22]\<rparr>
   = \<lparr>shape = [1, 1], elems = [22]\<rparr>"
  by (simp add: array_of_image_def Let_def im_isNull_def sample_allGray_def
      sample_qimage2np_def channel0_def)

lemma showing_fields [simp]:
  "pixmap (showing A q) = pm_of A"
  "prevPixmap (showing A q) = q"
  "image (showing A q) = sample_np2qimage A"
  "npImage (showing A q) = A"
  "cropActive (showing A q) = False"
  by (simp_all add: showing_def pm_of_def)

lemma gray_shown_rebuilt: "rebuilt sample_toolkit (showing gray_2x1 q)"
  by (simp add: rebuilt_def pm_of_def gray_2x1_def sample_np2qimage_def sample_fromImage_def
      sample_toImage_def array_of_image_def Let_def im_isNull_def sample_qimage2np_def)

lemma on_after_append: "on_after on (xs @ ys) = on_after (on_after on xs) ys"
  by (induction on xs rule: on_after.induct) simp_all

lemma guarded_append:
  "guarded on (xs @ ys) \<longleftrightarrow> guarded on xs \<and> guarded (on_after on xs) ys"
  by (induction on xs rule: guarded.induct) auto

lemma capture_calls:
  "sdk_calls (final (capture tk got frame s)) = sdk_calls s @ [FreezeVideo, WaitForNextImage] \<and>
   camOn (final (capture tk got frame s)) = camOn s"
  by (auto simp add: capture_def copy_image_def Let_def setIsAllGray_def scaleOne_def
      final_def split: sum.splits)

lemma cam_invariant_capture:
  "cam_invariant ueyeOK s \<Longrightarrow> camOn s \<Longrightarrow> cam_invariant ueyeOK (final (capture tk got frame s))"
  by (simp add: cam_invariant_def capture_calls guarded_append on_after_append)

lemma cam_invariant_step:
  "cam_invariant ueyeOK s \<Longrightarrow> cam_invariant ueyeOK (final (step tk ueyeOK a s))"
proof (cases a)
  case (CameraOn init_ok)
  assume "cam_invariant ueyeOK s"
  then show ?thesis
    by (auto simp add: CameraOn cameraOn_def final_def Let_def cam_invariant_def
        guarded_append on_after_append)
next
  case PrintCameraInfo
  assume "cam_invariant ueyeOK s"
  then show ?thesis
    by (auto simp add: PrintCameraInfo printCameraInfo_def final_def cam_invariant_def
        guarded_append on_after_append)
next
  case (GetOneImage got frame)
  assume "cam_invariant ueyeOK s"
  then show ?thesis
    using cam_invariant_capture [of ueyeOK s tk got frame]
    by (auto simp add: GetOneImage getOneImage_def final_def)
next
  case (GetOneImageV2 got frame)
  assume "cam_invariant ueyeOK s"
  then show ?thesis
    using cam_invariant_capture [of ueyeOK s tk got frame]
    by (auto simp add: GetOneImageV2 getOneImageV2_def final_def)
next
  case CameraOff
  assume "cam_invariant ueyeOK s"
  then show ?thesis
    by (auto simp add: CameraOff cameraOff_def final_def cam_invariant_def
        guarded_append on_after_append)
qed

lemma cam_invariant_run:
  "cam_invariant ueyeOK s \<Longrightarrow> cam_invariant ueyeOK (final (run tk ueyeOK acts s))"
proof (induction acts arbitrary: s)
  case Nil
  then show ?case by (simp add: final_def)
next
  case (Cons a acts)
  show ?case
  proof (cases "step tk ueyeOK a s")
    case (Inl e)
    with cam_invariant_step [OF Cons.prems, of tk a] show ?thesis
      by (simp add: final_def)
  next
    case (Inr s')
    with cam_invariant_step [OF Cons.prems, of tk a] have "cam_invariant ueyeOK s'"
      by (simp add: final_def)
    from Cons.IH [OF this] Inr show ?thesis by simp
  qed
qed

lemma session_calls:
  "sdk_calls (final (run sample_toolkit True session cam_initial)) =
     [CamInit, SetColormode, SetAoi, Alloc, FreezeVideo, WaitForNextImage, CamExit]"
  by (simp add: session_def cam_initial_def getOneImage_def getOneImageV2_def cameraOn_def
      cameraOff_def Let_def final_def capture_def copy_image_def frame_2x1_def first3_def
      setIsAllGray_def scaleOne_def array_size_def sample_np2qimage_def im_isNull_def
      pm_isNull_def sample_fromImage_def)

lemma committed_np2image2pixmap:
  "\<not> im_isNull (np2qimage tk B) \<Longrightarrow> committed tk (np2image2pixmap tk B True s)"
  by (simp add: committed_def np2image2pixmap_npImage np2image2pixmap_pixmap)

lemma shown_np2image2pixmap:
  "\<not> im_isNull (np2qimage tk (npImage s)) \<Longrightarrow>
     committed tk (np2image2pixmap tk (npImage s) False s)"
  by (simp add: committed_def np2image2pixmap_npImage np2image2pixmap_pixmap)

lemma same_size_np2image2pixmap:
  "keeps_size tk \<Longrightarrow> \<not> im_isNull (np2qimage tk B) \<Longrightarrow>
     same_size (np2image2pixmap tk B True s)"
  by (simp add: same_size_def keeps_size_def np2image2pixmap_npImage np2image2pixmap_pixmap)

lemma same_size_shown:
  "keeps_size tk \<Longrightarrow> \<not> im_isNull (np2qimage tk (npImage s)) \<Longrightarrow>
     same_size (np2image2pixmap tk (npImage s) False s)"
  by (simp add: same_size_def keeps_size_def np2image2pixmap_npImage np2image2pixmap_pixmap)

lemma in_sync_commit:
  "keeps_size tk \<Longrightarrow> \<not> im_isNull (np2qimage tk B) \<Longrightarrow>
     in_sync tk (np2image2pixmap tk B True s)"
  by (simp add: in_sync_def linked_def committed_np2image2pixmap same_size_np2image2pixmap)

lemma in_sync_shown:
  "keeps_size tk \<Longrightarrow> \<not> im_isNull (np2qimage tk (npImage s)) \<Longrightarrow>
     in_sync tk (np2image2pixmap tk (npImage s) False s)"
  by (simp add: in_sync_def linked_def shown_np2image2pixmap same_size_shown)

lemma rebuilt_pixmap2image2np: "rebuilt tk (pixmap2image2np tk s)"
  by (simp add: rebuilt_def)

lemma shape_array_of_image:
  assumes "keeps_size tk" and "\<not> im_isNull i"
  shows "2 \<le> length (shape (array_of_image tk i)) \<and>
         int (shape (array_of_image tk i) ! 1) = im_width i \<and>
         int (shape (array_of_image tk i) ! 0) = im_height i"
proof -
  from assms have q: "2 \<le> length (shape (qimage2np tk i)) \<and>
      int (shape (qimage2np tk i) ! 1) = im_width i \<and>
      int (shape (qimage2np tk i) ! 0) = im_height i"
    by (simp add: keeps_size_def)
  then show ?thesis
    by (simp add: array_of_image_def Let_def channel0_def)
qed

lemma same_size_pixmap2image2np:
  assumes "keeps_size tk" and "\<not> pm_isNull (pixmap s)"
  shows "same_size (pixmap2image2np tk s)"
proof -
  from assms(1) have sz: "im_width (toImage tk (pixmap s)) = pm_width (pixmap s)"
    "im_height (toImage tk (pixmap s)) = pm_height (pixmap s)"
    by (simp_all add: keeps_size_def)
  with assms(2) have "\<not> im_isNull (toImage tk (pixmap s))"
    by (simp add: im_isNull_def pm_isNull_def)
  from shape_array_of_image [OF assms(1) this] sz show ?thesis
    by (simp add: same_size_def)
qed

lemma in_sync_rebuild:
  "keeps_size tk \<Longrightarrow> \<not> pm_isNull (pixmap s) \<Longrightarrow> in_sync tk (pixmap2image2np tk s)"
  by (simp add: in_sync_def linked_def rebuilt_pixmap2image2np same_size_pixmap2image2np)

lemma in_sync_sceneRect [simp]: "in_sync tk (s\<lparr>sceneRect := r\<rparr>) = in_sync tk s"
  by (simp add: in_sync_def linked_def committed_def rebuilt_def same_size_def)

lemma detectCornersHarris_shows:
  "shape (npImage s) \<noteq> [] \<Longrightarrow>
     \<exists>s'. detectCornersHarris tk s = np2image2pixmap tk (npImage s') False s'"
  apply (simp only: detectCornersHarris_def if_False Let_def)
  apply (rule exI, rule refl)
  done

lemma sample_keeps_size: "keeps_size sample_toolkit"
  by (auto simp add: keeps_size_def sample_fromImage_def sample_toImage_def
      sample_np2qimage_def sample_qimage2np_def im_isNull_def null_image_def)

lemma crop_ready_fields [simp]:
  "pixmap crop_ready = pm_of gray_8x8"
  "prevPixmap crop_ready = pm_of gray_1x1"
  "npImage crop_ready = gray_8x8"
  "cropActive crop_ready"
  by (simp_all add: crop_ready_def)

lemma pm_of_size:
  "length (shape A) = 2 \<Longrightarrow> pm_width (pm_of A) = int (shape A ! 1) \<and>
     pm_height (pm_of A) = int (shape A ! 0)"
  by (simp add: pm_of_def sample_fromImage_def sample_np2qimage_def)

section \<open>Claims\<close>

text \<open>
  C2. When the previous pixmap has a positive width and height, \<^verbatim>\<open>undoLast\<close> swaps
  the two pixmaps (the current one becomes the old previous one and the other way
  round) and rebuilds image and array from the restored pixmap; when the previous
  pixmap is null, \<^verbatim>\<open>undoLast\<close> returns the window as it was.
\<close>

theorem undoLast_swaps:
  "(\<not> pm_isNull (prevPixmap s) \<longrightarrow>
      pixmap (undoLast tk s) = prevPixmap s \<and>
      prevPixmap (undoLast tk s) = pixmap s \<and>
      image (undoLast tk s) = toImage tk (prevPixmap s) \<and>
      npImage (undoLast tk s) = array_of_image tk (toImage tk (prevPixmap s))) \<and>
   (pm_isNull (prevPixmap s) \<longrightarrow> undoLast tk s = s)"
  by (simp add: undoLast_def pm_isNull_def Let_def)

theorem undoLast_swaps_witness:
  "\<not> pm_isNull (prevPixmap (showing gray_2x1 (pm_of gray_1x1))) \<and>
   pixmap (undoLast sample_toolkit (showing gray_2x1 (pm_of gray_1x1))) = pm_of gray_1x1 \<and>
   prevPixmap (undoLast sample_toolkit (showing gray_2x1 (pm_of gray_1x1))) = pm_of gray_2x1 \<and>
   npImage (undoLast sample_toolkit (showing gray_2x1 (pm_of gray_1x1))) = gray_1x1 \<and>
   pm_isNull (prevPixmap initial_window) \<and>
   undoLast sample_toolkit initial_window = initial_window"
proof -
  have a: "\<not> pm_isNull (prevPixmap (showing gray_2x1 (pm_of gray_1x1)))"
    by (simp add: showing_def pm_of_def gray_1x1_def pm_isNull_def sample_fromImage_def
        sample_np2qimage_def)
  have b: "pm_isNull (prevPixmap initial_window)"
    by (simp add: initial_window_def null_pixmap_def pm_isNull_def)
  have c: "array_of_image sample_toolkit (toImage sample_toolkit (pm_of gray_1x1)) = gray_1x1"
    by (simp add: array_of_image_def sample_toolkit_def sample_toImage_def pm_of_def
        sample_fromImage_def sample_np2qimage_def sample_qimage2np_def gray_1x1_def
        im_isNull_def Let_def)
  have d: "pixmap (showing gray_2x1 (pm_of gray_1x1)) = pm_of gray_2x1"
    "prevPixmap (showing gray_2x1 (pm_of gray_1x1)) = pm_of gray_1x1"
    by (simp_all add: showing_def pm_of_def)
  from undoLast_swaps [of "showing gray_2x1 (pm_of gray_1x1)" sample_toolkit]
       undoLast_swaps [of initial_window sample_toolkit] a b c d
  show ?thesis by simp
qed

text \<open>
  C9. The guarded operations do nothing on the empty state: with a null pixmap,
  \<^verbatim>\<open>scaleOne\<close>, \<^verbatim>\<open>scaleUp\<close> and \<^verbatim>\<open>scaleDown\<close> return the window as it was, view
  transform included; with a null previous pixmap, \<^verbatim>\<open>undoLast\<close> returns the window
  as it was, so pixmap, image and array are unchanged. None of the four has a path
  that raises: each returns a window.
\<close>

theorem null_guards_noop:
  "(pm_isNull (pixmap s) \<longrightarrow> scaleOne s = s \<and> scaleUp s = s \<and> scaleDown s = s) \<and>
   (pm_isNull (prevPixmap s) \<longrightarrow> undoLast tk s = s)"
  by (simp add: scaleOne_def scaleUp_def scaleDown_def undoLast_def pm_isNull_def Let_def)

theorem null_guards_noop_witness:
  "pm_isNull (pixmap initial_window) \<and> pm_isNull (prevPixmap initial_window) \<and>
   scaleOne initial_window = initial_window \<and> scaleUp initial_window = initial_window \<and>
   scaleDown initial_window = initial_window \<and>
   undoLast sample_toolkit initial_window = initial_window"
proof -
  have a: "pm_isNull (pixmap initial_window)" "pm_isNull (prevPixmap initial_window)"
    by (simp_all add: initial_window_def null_pixmap_def pm_isNull_def)
  from null_guards_noop [of initial_window sample_toolkit] a show ?thesis by simp
qed

text \<open>
  C10. The small-rectangle branch of \<^verbatim>\<open>cropEnd\<close> is meant to cut the black frame and
  keep \<open>rows - top - bottom\<close> rows and \<open>columns - left - right\<close> columns. On the
  picture \<open>framed\<close> (3 rows, 4 columns, a frame of one black row or column on each
  side) that would be 1 row of 2 columns. The method slices the rows with the new
  width, \<^verbatim>\<open>A[top:top+w, left:left+w]\<close>, and commits 2 rows: the lit row and the black
  row below it.
\<close>

theorem cropEnd_small_rows_by_width:
  "\<exists>s'. cropEnd tk \<lparr>rx = 0, ry = 0, rw = 1, rh = 1\<rparr> (s\<lparr>cropActive := True, npImage := framed\<rparr>)
          = Inr s' \<and>
        npImage s' = \<lparr>shape = [2, 2], elems = [5, 7, 0, 0]\<rparr>"
proof -
  have sh: "shape framed = [3, 4]" by (simp add: framed_def)
  show ?thesis
    by (simp add: cropEnd_def black_margins_framed sh crop_framed Let_def
        np2image2pixmap_npImage setIsAllGray_def)
qed

text \<open>
  C3. The undo history is one slot. Each committing edit (\<^verbatim>\<open>toGray\<close> on a colour
  array of 3 or 4 channels, \<^verbatim>\<open>cropEnd\<close> with a rectangle wider and higher than 5 while
  cropping is active, the accepted \<^verbatim>\<open>toEdges\<close>, \<^verbatim>\<open>filterImage\<close>, \<^verbatim>\<open>toBinary\<close> and
  \<^verbatim>\<open>resizeImage\<close>) leaves in \<open>prevPixmap\<close> exactly the pixmap that was current before
  it, and its result does not depend on what the slot held before: whatever pixmap
  \<open>q\<close> is put there first, the edit ends in the same window, so nothing older than
  one edit back survives.
\<close>

theorem single_undo_slot:
  "(is_color (npImage s) \<and> shape (npImage s) ! 2 \<le> 4 \<longrightarrow>
      (\<exists>s'. toGray tk s = Inr s' \<and> prevPixmap s' = pixmap s) \<and>
      toGray tk (s\<lparr>prevPixmap := q\<rparr>) = toGray tk s) \<and>
   (cropActive s \<and> 5 < rw r \<and> 5 < rh r \<longrightarrow>
      (\<exists>s'. cropEnd tk r s = Inr s' \<and> prevPixmap s' = pixmap s) \<and>
      cropEnd tk r (s\<lparr>prevPixmap := q\<rparr>) = cropEnd tk r s) \<and>
   (accepted de \<longrightarrow>
      prevPixmap (toEdges tk de s) = pixmap s \<and>
      toEdges tk de (s\<lparr>prevPixmap := q\<rparr>) = toEdges tk de s) \<and>
   (accepted df \<longrightarrow>
      prevPixmap (filterImage tk df s) = pixmap s \<and>
      filterImage tk df (s\<lparr>prevPixmap := q\<rparr>) = filterImage tk df s) \<and>
   (accepted db \<longrightarrow>
      prevPixmap (toBinary tk db s) = pixmap s \<and>
      toBinary tk db (s\<lparr>prevPixmap := q\<rparr>) = toBinary tk db s) \<and>
   prevPixmap (resizeImage tk True v s) = pixmap s \<and>
   resizeImage tk True v (s\<lparr>prevPixmap := q\<rparr>) = resizeImage tk True v s"
  using toGray_slot [of s tk q] cropEnd_slot [of s r tk q] toEdges_slot [of de tk s q]
    filterImage_slot [of df tk s q] toBinary_slot [of db tk s q] resizeImage_slot [of tk v s q]
  by blast

theorem single_undo_slot_witness:
  "is_color (npImage color_shown) \<and> shape (npImage color_shown) ! 2 \<le> 4 \<and>
   (\<exists>s'. toGray sample_toolkit color_shown = Inr s' \<and> prevPixmap s' = pixmap color_shown) \<and>
   cropActive crop_ready \<and> 5 < rw big_rect \<and> 5 < rh big_rect \<and>
   (\<exists>s'. cropEnd sample_toolkit big_rect crop_ready = Inr s' \<and> prevPixmap s' = pixmap crop_ready) \<and>
   accepted ok_edges \<and> accepted ok_filter \<and> accepted ok_binary \<and>
   prevPixmap (toEdges sample_toolkit ok_edges crop_ready) = pixmap crop_ready \<and>
   prevPixmap (filterImage sample_toolkit ok_filter crop_ready) = pixmap crop_ready \<and>
   prevPixmap (toBinary sample_toolkit ok_binary crop_ready) = pixmap crop_ready \<and>
   toBinary sample_toolkit ok_binary (crop_ready\<lparr>prevPixmap := null_pixmap\<rparr>)
     = toBinary sample_toolkit ok_binary crop_ready"
proof -
  have a: "is_color (npImage color_shown) \<and> shape (npImage color_shown) ! 2 \<le> 4"
    by (simp add: color_shown_def showing_def color_1x1_def is_color_def)
  have b: "cropActive crop_ready \<and> 5 < rw big_rect \<and> 5 < rh big_rect"
    by (simp add: crop_ready_def big_rect_def)
  have c: "accepted ok_edges" "accepted ok_filter" "accepted ok_binary"
    by (simp_all add: ok_edges_def ok_filter_def ok_binary_def)
  from single_undo_slot [where s = color_shown and tk = sample_toolkit and q = null_pixmap
      and r = big_rect and de = ok_edges and df = ok_filter and db = ok_binary]
    single_undo_slot [where s = crop_ready and tk = sample_toolkit and q = null_pixmap
      and r = big_rect and de = ok_edges and df = ok_filter and db = ok_binary]
    a b c
  show ?thesis by blast
qed

text \<open>
  C6. The previews \<^verbatim>\<open>tryEdges\<close>, \<^verbatim>\<open>tryFilter\<close> and \<^verbatim>\<open>tryBinary\<close> never touch the
  array: for all arguments \<open>npImage\<close> is what it was. What they update is the preview
  on display: the image becomes the conversion of the computed array and, that image
  not being null, the pixmap becomes the pixmap of that image. Nothing else changes
  but what describes the displayed pixmap (the scene item, the scene rectangle and the
  gray flag of the image): the undo slot, the crop flag, the view transform and the
  scale factor are what they were.
\<close>

theorem previews_keep_array:
  "npImage (tryEdges tk ve s) = npImage s \<and>
   npImage (tryFilter tk vf s) = npImage s \<and>
   npImage (tryBinary tk t s) = npImage s \<and>
   image (tryEdges tk ve s) = np2qimage tk (edge_magnitude tk (npImage s) (fst ve) (snd ve)) \<and>
   image (tryFilter tk vf s) = np2qimage tk (filter_response tk (npImage s) (fst vf) (snd vf)) \<and>
   image (tryBinary tk t s) = np2qimage tk (binary_of tk (npImage s) t) \<and>
   pixmap (tryEdges tk ve s) =
     (if im_isNull (image (tryEdges tk ve s)) then pixmap s
      else fromImage tk (image (tryEdges tk ve s))) \<and>
   pixmap (tryFilter tk vf s) =
     (if im_isNull (image (tryFilter tk vf s)) then pixmap s
      else fromImage tk (image (tryFilter tk vf s))) \<and>
   pixmap (tryBinary tk t s) =
     (if im_isNull (image (tryBinary tk t s)) then pixmap s
      else fromImage tk (image (tryBinary tk t s))) \<and>
   tryEdges tk ve s =
     s\<lparr>image := image (tryEdges tk ve s), pixmap := pixmap (tryEdges tk ve s),
       curItem := (if im_isNull (image (tryEdges tk ve s)) then curItem s
                   else Some (pixmap (tryEdges tk ve s))),
       sceneRect := (if im_isNull (image (tryEdges tk ve s)) then sceneRect s
                     else (pm_width (pixmap (tryEdges tk ve s)),
                           pm_height (pixmap (tryEdges tk ve s)))),
       isAllGray := (if im_isNull (image (tryEdges tk ve s)) then False
                     else allGray tk (image (tryEdges tk ve s)))\<rparr> \<and>
   tryFilter tk vf s =
     s\<lparr>image := image (tryFilter tk vf s), pixmap := pixmap (tryFilter tk vf s),
       curItem := (if im_isNull (image (tryFilter tk vf s)) then curItem s
                   else Some (pixmap (tryFilter tk vf s))),
       sceneRect := (if im_isNull (image (tryFilter tk vf s)) then sceneRect s
                     else (pm_width (pixmap (tryFilter tk vf s)),
                           pm_height (pixmap (tryFilter tk vf s)))),
       isAllGray := (if im_isNull (image (tryFilter tk vf s)) then False
                     else allGray tk (image (tryFilter tk vf s)))\<rparr> \<and>
   tryBinary tk t s =
     s\<lparr>image := image (tryBinary tk t s), pixmap := pixmap (tryBinary tk t s),
       curItem := (if im_isNull (image (tryBinary tk t s)) then curItem s
                   else Some (pixmap (tryBinary tk t s))),
       sceneRect := (if im_isNull (image (tryBinary tk t s)) then sceneRect s
                     else (pm_width (pixmap (tryBinary tk t s)),
                           pm_height (pixmap (tryBinary tk t s)))),
       isAllGray := (if im_isNull (image (tryBinary tk t s)) then False
                     else allGray tk (image (tryBinary tk t s)))\<rparr>"
  by (simp add: tryEdges_def tryFilter_def tryBinary_def np2image2pixmap_shows)

theorem previews_keep_array_witness:
  "npImage (tryBinary sample_toolkit 3 (showing gray_2x1 null_pixmap)) = gray_2x1 \<and>
   image (tryBinary sample_toolkit 3 (showing gray_2x1 null_pixmap)) =
     \<lparr>im_width = 2, im_height = 1, im_depth = 8, im_bits = [0, 255]\<rparr> \<and>
   pixmap (tryBinary sample_toolkit 3 (showing gray_2x1 null_pixmap)) =
     \<lparr>pm_width = 2, pm_height = 1, pm_depth = 8, pm_bits = [0, 255]\<rparr> \<and>
   pixmap (showing gray_2x1 null_pixmap) =
     \<lparr>pm_width = 2, pm_height = 1, pm_depth = 8, pm_bits = [3, 4]\<rparr>"
proof -
  have b: "np2qimage sample_toolkit (binary_of sample_toolkit gray_2x1 3) =
      \<lparr>im_width = 2, im_height = 1, im_depth = 8, im_bits = [0, 255]\<rparr>"
    by (simp add: binary_of_def sample_binary_def sample_np2qimage_def gray_2x1_def)
  have n: "\<not> im_isNull \<lparr>im_width = 2, im_height = 1, im_depth = 8, im_bits = [0, 255]\<rparr>"
    by (simp add: im_isNull_def)
  have p: "pm_of gray_2x1 = \<lparr>pm_width = 2, pm_height = 1, pm_depth = 8, pm_bits = [3, 4]\<rparr>"
    by (simp add: pm_of_def sample_fromImage_def sample_np2qimage_def gray_2x1_def)
  from previews_keep_array [of sample_toolkit "(3, 1)" "showing gray_2x1 null_pixmap"
      "([1], 1)" 3] b n p
  show ?thesis by (simp add: sample_fromImage_def)
qed

text \<open>
  C7. For an array of 3 dimensions with 3 or 4 channels whose gray version converts
  to a non-null image, \<^verbatim>\<open>toGray\<close> puts that gray version into all three forms (the
  array itself, the image converted from it, the pixmap made of that image) and the
  pixmap shown before into \<open>prevPixmap\<close>. For a 2-dimensional array \<^verbatim>\<open>toGray\<close>
  returns the window as it was.
\<close>

theorem toGray_commits:
  "(length (shape (npImage s)) = 3 \<and> (shape (npImage s) ! 2 = 3 \<or> shape (npImage s) ! 2 = 4) \<and>
    \<not> im_isNull (np2qimage tk (gray_of tk (npImage s))) \<longrightarrow>
      (\<exists>s'. toGray tk s = Inr s' \<and>
         npImage s' = gray_of tk (npImage s) \<and>
         image s' = np2qimage tk (gray_of tk (npImage s)) \<and>
         pixmap s' = fromImage tk (np2qimage tk (gray_of tk (npImage s))) \<and>
         prevPixmap s' = pixmap s)) \<and>
   (length (shape (npImage s)) = 2 \<longrightarrow> toGray tk s = Inr s)"
  by (auto simp add: toGray_def gray_of_def Let_def np2image2pixmap_npImage
      np2image2pixmap_pixmap)

text \<open>
  C4. While cropping is active, \<^verbatim>\<open>cropEnd\<close> with a rectangle wider and higher than 5
  makes the toolkit's copy of exactly that rectangle of the current pixmap the new
  pixmap, keeps the old pixmap in \<open>prevPixmap\<close> and clears \<open>cropActive\<close>. The new
  pixmap has the width and height of the rectangle when the rectangle lies within the
  old pixmap (and the toolkit's copy keeps the size asked for), not for every
  rectangle: the view hands over rectangles that reach beyond the picture. While
  cropping is not active \<^verbatim>\<open>cropEnd\<close> changes nothing.
\<close>

theorem cropEnd_large:
  "(cropActive s \<and> 5 < rw r \<and> 5 < rh r \<longrightarrow>
      (\<exists>s'. cropEnd tk r s = Inr s' \<and>
         pixmap s' = pm_copy tk (pixmap s) (rx r) (ry r) (rw r) (rh r) \<and>
         prevPixmap s' = pixmap s \<and> \<not> cropActive s' \<and>
         (copy_fits tk \<and> inside r (pixmap s) \<longrightarrow>
            pm_width (pixmap s') = rw r \<and> pm_height (pixmap s') = rh r))) \<and>
   (\<not> cropActive s \<longrightarrow> cropEnd tk r s = Inr s)"
  by (simp add: cropEnd_def Let_def copy_fits_def)

text \<open>
  C5. When the dialog of \<^verbatim>\<open>toEdges\<close>, \<^verbatim>\<open>filterImage\<close> or \<^verbatim>\<open>toBinary\<close> is cancelled,
  whatever it previewed, pixmap and \<open>prevPixmap\<close> are again what they were before the
  call, and image and array are rebuilt from that pixmap; so they too are what they
  were, provided they were the conversions of the pixmap before the call. A cancelled
  \<^verbatim>\<open>resizeImage\<close> returns the window as it was.
\<close>

theorem cancel_restores:
  "(\<not> accepted de \<longrightarrow>
      pixmap (toEdges tk de s) = pixmap s \<and> prevPixmap (toEdges tk de s) = prevPixmap s \<and>
      image (toEdges tk de s) = toImage tk (pixmap s) \<and>
      npImage (toEdges tk de s) = array_of_image tk (toImage tk (pixmap s)) \<and>
      (rebuilt tk s \<longrightarrow>
         image (toEdges tk de s) = image s \<and> npImage (toEdges tk de s) = npImage s)) \<and>
   (\<not> accepted df \<longrightarrow>
      pixmap (filterImage tk df s) = pixmap s \<and>
      prevPixmap (filterImage tk df s) = prevPixmap s \<and>
      image (filterImage tk df s) = toImage tk (pixmap s) \<and>
      npImage (filterImage tk df s) = array_of_image tk (toImage tk (pixmap s)) \<and>
      (rebuilt tk s \<longrightarrow>
         image (filterImage tk df s) = image s \<and> npImage (filterImage tk df s) = npImage s)) \<and>
   (\<not> accepted db \<longrightarrow>
      pixmap (toBinary tk db s) = pixmap s \<and> prevPixmap (toBinary tk db s) = prevPixmap s \<and>
      image (toBinary tk db s) = toImage tk (pixmap s) \<and>
      npImage (toBinary tk db s) = array_of_image tk (toImage tk (pixmap s)) \<and>
      (rebuilt tk s \<longrightarrow>
         image (toBinary tk db s) = image s \<and> npImage (toBinary tk db s) = npImage s)) \<and>
   resizeImage tk False v s = s"
  by (simp add: toEdges_def filterImage_def toBinary_def resizeImage_def Let_def
      restore_fields fold_tryEdges fold_tryFilter fold_tryBinary rebuilt_def)

theorem cancel_restores_witness:
  "\<not> accepted cancelled_edges \<and> \<not> accepted cancelled_filter \<and> \<not> accepted cancelled \<and>
   rebuilt sample_toolkit (showing gray_2x1 null_pixmap) \<and>
   pixmap (toEdges sample_toolkit cancelled_edges (showing gray_2x1 null_pixmap)) = pm_of gray_2x1 \<and>
   prevPixmap (toEdges sample_toolkit cancelled_edges (showing gray_2x1 null_pixmap)) = null_pixmap \<and>
   image (toEdges sample_toolkit cancelled_edges (showing gray_2x1 null_pixmap))
     = sample_np2qimage gray_2x1 \<and>
   npImage (toEdges sample_toolkit cancelled_edges (showing gray_2x1 null_pixmap)) = gray_2x1 \<and>
   npImage (filterImage sample_toolkit cancelled_filter (showing gray_2x1 null_pixmap)) = gray_2x1 \<and>
   npImage (toBinary sample_toolkit cancelled (showing gray_2x1 null_pixmap)) = gray_2x1 \<and>
   resizeImage sample_toolkit False (4, 4) (showing gray_2x1 null_pixmap)
     = showing gray_2x1 null_pixmap"
proof -
  have a: "\<not> accepted cancelled_edges" "\<not> accepted cancelled_filter" "\<not> accepted cancelled"
    by (simp_all add: cancelled_edges_def cancelled_filter_def cancelled_def)
  note b = gray_shown_rebuilt [of null_pixmap]
  have e: "sample_toImage (pm_of gray_2x1) = sample_np2qimage gray_2x1"
    "array_of_image sample_toolkit (sample_toImage (pm_of gray_2x1)) = gray_2x1"
    "array_of_image sample_toolkit (sample_np2qimage gray_2x1) = gray_2x1"
    by (simp_all add: pm_of_def gray_2x1_def sample_np2qimage_def sample_fromImage_def
        sample_toImage_def array_of_image_def Let_def im_isNull_def sample_qimage2np_def)
  from cancel_restores [where de = cancelled_edges and df = cancelled_filter and db = cancelled
      and tk = sample_toolkit and s = "showing gray_2x1 null_pixmap" and v = "(4, 4)"] a b
  show ?thesis by (simp add: e)
qed

text \<open>
  The rebuilding matters: after \<^verbatim>\<open>drawlines\<close> the array still holds the colour
  picture while the pixmap shows its gray version, and a cancelled \<^verbatim>\<open>toBinary\<close> then
  replaces the colour pixel (10, 20, 30) in the array by the gray value 22.
\<close>

theorem cancel_overwrites_array:
  "\<not> accepted cancelled \<and> npImage after_drawlines = color_1x1 \<and>
   npImage (toBinary sample_toolkit cancelled after_drawlines) = \<lparr>shape = [1, 1], elems = [22]\<rparr> \<and>
   npImage (toBinary sample_toolkit cancelled after_drawlines) \<noteq> npImage after_drawlines"
  by (simp add: toBinary_def Let_def cancelled_def restore_fields after_drawlines_fields
      sample_toImage_def gray_pixel_array color_1x1_def)

theorem toGray_commits_witness:
  "length (shape (npImage color_shown)) = 3 \<and> shape (npImage color_shown) ! 2 = 3 \<and>
   \<not> im_isNull (np2qimage sample_toolkit (gray_of sample_toolkit (npImage color_shown))) \<and>
   (\<exists>s'. toGray sample_toolkit color_shown = Inr s' \<and>
      npImage s' = \<lparr>shape = [1, 1], elems = [22]\<rparr> \<and> prevPixmap s' = pm_of color_1x1) \<and>
   length (shape (npImage (showing gray_2x1 null_pixmap))) = 2 \<and>
   toGray sample_toolkit (showing gray_2x1 null_pixmap) = Inr (showing gray_2x1 null_pixmap)"
proof -
  have sh: "shape color_1x1 = [1, 1, 3]" by (simp add: color_1x1_def)
  have g: "gray_of sample_toolkit (npImage color_shown) = \<lparr>shape = [1, 1], elems = [22]\<rparr>"
    by (simp add: gray_of_def color_shown_def sample_gray_color_1x1 sh)
  have a: "length (shape (npImage color_shown)) = 3 \<and> shape (npImage color_shown) ! 2 = 3"
    by (simp add: color_shown_def color_1x1_def)
  have b: "\<not> im_isNull (np2qimage sample_toolkit (gray_of sample_toolkit (npImage color_shown)))"
    by (simp add: g sample_np2qimage_def im_isNull_def)
  have c: "length (shape (npImage (showing gray_2x1 null_pixmap))) = 2"
    by (simp add: gray_2x1_def)
  have d: "pixmap color_shown = pm_of color_1x1" by (simp add: color_shown_def)
  from toGray_commits [of color_shown sample_toolkit]
    toGray_commits [of "showing gray_2x1 null_pixmap" sample_toolkit] a b c d g
  show ?thesis by auto
qed

theorem cropEnd_large_witness:
  "cropActive crop_ready \<and> 5 < rw big_rect \<and> 5 < rh big_rect \<and>
   copy_fits sample_toolkit \<and> inside big_rect (pixmap crop_ready) \<and>
   (\<exists>s'. cropEnd sample_toolkit big_rect crop_ready = Inr s' \<and>
      pm_width (pixmap s') = 6 \<and> pm_height (pixmap s') = 6 \<and>
      prevPixmap s' = pm_of gray_8x8 \<and> \<not> cropActive s') \<and>
   \<not> cropActive (showing gray_8x8 null_pixmap) \<and>
   cropEnd sample_toolkit big_rect (showing gray_8x8 null_pixmap)
     = Inr (showing gray_8x8 null_pixmap)"
proof -
  have a: "cropActive crop_ready \<and> 5 < rw big_rect \<and> 5 < rh big_rect"
    by (simp add: crop_ready_def big_rect_def)
  have b: "inside big_rect (pixmap crop_ready)"
    by (simp add: inside_def big_rect_def crop_ready_def pm_of_def gray_8x8_def
        sample_fromImage_def sample_np2qimage_def)
  have c: "pixmap crop_ready = pm_of gray_8x8" "rw big_rect = 6" "rh big_rect = 6"
    by (simp_all add: crop_ready_def big_rect_def)
  have d: "\<not> cropActive (showing gray_8x8 null_pixmap)" by simp
  from cropEnd_large [of crop_ready big_rect sample_toolkit]
    cropEnd_large [of "showing gray_8x8 null_pixmap" big_rect sample_toolkit]
    a b c d sample_copy_fits
  show ?thesis by auto
qed

text \<open>
  A rectangle of width 6 and height 6 with its corner at (4, 4) reaches beyond the
  picture of 8 rows and 8 columns; the copy is cut at the border and the new pixmap is
  4 wide and 4 high.
\<close>

theorem cropEnd_large_cut_at_border:
  "cropActive crop_ready \<and> 5 < rw edge_rect \<and> 5 < rh edge_rect \<and>
   rw edge_rect = 6 \<and> rh edge_rect = 6 \<and>
   pm_width (pixmap crop_ready) = 8 \<and> pm_height (pixmap crop_ready) = 8 \<and>
   \<not> isl (cropEnd sample_toolkit edge_rect crop_ready) \<and>
   pm_width (pixmap (projr (cropEnd sample_toolkit edge_rect crop_ready))) = 4 \<and>
   pm_height (pixmap (projr (cropEnd sample_toolkit edge_rect crop_ready))) = 4"
proof -
  have sh: "shape gray_8x8 = [8, 8]" by (simp add: gray_8x8_def)
  show ?thesis
    by (simp add: cropEnd_def Let_def edge_rect_def pm_of_size sh sample_copy_def
        pm_of_def sample_fromImage_def sample_np2qimage_def)
qed

text \<open>
  C8. The camera is never used while it is off. \<^verbatim>\<open>getOneImage\<close>, \<^verbatim>\<open>getOneImageV2\<close>,
  \<^verbatim>\<open>printCameraInfo\<close> and \<^verbatim>\<open>cameraOff\<close> return the window as it was, without a call
  into the SDK, unless the SDK is available and \<open>camOn\<close> is set; \<^verbatim>\<open>cameraOn\<close> does
  nothing when the camera is on, and where the SDK is available and the camera off it
  ends with \<open>camOn\<close> set (when the camera answers). After every sequence of camera
  actions on a fresh window, whatever the SDK answered and whether or not an exception
  ended it, the record of SDK calls is guarded (initialisation only while off; grabs,
  queries and exit only while on), the camera is on only where the SDK is available,
  and \<^verbatim>\<open>cameraOff\<close> leaves \<open>camOn\<close> false.
\<close>

theorem camera_guarded:
  "(\<not> (ueyeOK \<and> camOn s) \<longrightarrow>
      getOneImage tk ueyeOK got frame s = Inr s \<and>
      getOneImageV2 tk ueyeOK got frame s = Inr s \<and>
      printCameraInfo ueyeOK s = s \<and> cameraOff ueyeOK s = s) \<and>
   (camOn s \<longrightarrow> cameraOn ueyeOK init_ok s = Inr s) \<and>
   (ueyeOK \<and> \<not> camOn s \<longrightarrow> (\<exists>s'. cameraOn ueyeOK True s = Inr s' \<and> camOn s')) \<and>
   (\<not> camOn s0 \<and> sdk_calls s0 = [] \<longrightarrow>
      guarded False (sdk_calls (final (run tk ueyeOK acts s0))) \<and>
      (camOn (final (run tk ueyeOK acts s0)) \<longrightarrow> ueyeOK) \<and>
      \<not> camOn (cameraOff ueyeOK (final (run tk ueyeOK acts s0))))"
proof -
  have guards: "\<not> (ueyeOK \<and> camOn s) \<longrightarrow>
      getOneImage tk ueyeOK got frame s = Inr s \<and>
      getOneImageV2 tk ueyeOK got frame s = Inr s \<and>
      printCameraInfo ueyeOK s = s \<and> cameraOff ueyeOK s = s"
    by (simp add: getOneImage_def getOneImageV2_def printCameraInfo_def cameraOff_def)
  have on: "(camOn s \<longrightarrow> cameraOn ueyeOK init_ok s = Inr s) \<and>
      (ueyeOK \<and> \<not> camOn s \<longrightarrow> (\<exists>s'. cameraOn ueyeOK True s = Inr s' \<and> camOn s'))"
    by (simp add: cameraOn_def Let_def)
  have runs: "\<not> camOn s0 \<and> sdk_calls s0 = [] \<longrightarrow>
      guarded False (sdk_calls (final (run tk ueyeOK acts s0))) \<and>
      (camOn (final (run tk ueyeOK acts s0)) \<longrightarrow> ueyeOK) \<and>
      \<not> camOn (cameraOff ueyeOK (final (run tk ueyeOK acts s0)))"
  proof
    assume a: "\<not> camOn s0 \<and> sdk_calls s0 = []"
    then have "cam_invariant ueyeOK s0" by (simp add: cam_invariant_def)
    then have "cam_invariant ueyeOK (final (run tk ueyeOK acts s0))"
      by (rule cam_invariant_run)
    then show "guarded False (sdk_calls (final (run tk ueyeOK acts s0))) \<and>
      (camOn (final (run tk ueyeOK acts s0)) \<longrightarrow> ueyeOK) \<and>
      \<not> camOn (cameraOff ueyeOK (final (run tk ueyeOK acts s0)))"
      by (auto simp add: cam_invariant_def cameraOff_def)
  qed
  from guards on runs show ?thesis by blast
qed

theorem camera_guarded_witness:
  "\<not> (True \<and> camOn cam_initial) \<and>
   getOneImage sample_toolkit True True frame_2x1 cam_initial = Inr cam_initial \<and>
   getOneImageV2 sample_toolkit True True frame_2x1 cam_initial = Inr cam_initial \<and>
   printCameraInfo True cam_initial = cam_initial \<and> cameraOff True cam_initial = cam_initial \<and>
   (\<exists>s'. cameraOn True True cam_initial = Inr s' \<and> camOn s') \<and>
   camOn cam_running \<and> cameraOn True True cam_running = Inr cam_running \<and>
   \<not> camOn cam_initial \<and> sdk_calls cam_initial = [] \<and>
   guarded False (sdk_calls (final (run sample_toolkit True session cam_initial))) \<and>
   sdk_calls (final (run sample_toolkit True session cam_initial)) =
     [CamInit, SetColormode, SetAoi, Alloc, FreezeVideo, WaitForNextImage, CamExit] \<and>
   \<not> camOn (cameraOff True (final (run sample_toolkit True session cam_initial)))"
proof -
  have a: "\<not> camOn cam_initial" "sdk_calls cam_initial = []"
    by (simp_all add: cam_initial_def)
  have b: "camOn cam_running" by (simp add: cam_running_def)
  from camera_guarded [where s = cam_initial and ueyeOK = True and tk = sample_toolkit
      and got = True and frame = frame_2x1 and init_ok = True and s0 = cam_initial
      and acts = session]
    camera_guarded [where s = cam_running and ueyeOK = True and tk = sample_toolkit
      and got = True and frame = frame_2x1 and init_ok = True and s0 = cam_initial
      and acts = session]
    a b session_calls
  show ?thesis by simp
qed

text \<open>
  Keeping the three forms in sync. With conversions that keep the size: after
  \<^verbatim>\<open>toGray\<close>, \<^verbatim>\<open>cropEnd\<close> with a large rectangle, the accepted \<^verbatim>\<open>toEdges\<close>,
  \<^verbatim>\<open>filterImage\<close>, \<^verbatim>\<open>toBinary\<close> and \<^verbatim>\<open>resizeImage\<close>, \<^verbatim>\<open>undoLast\<close> and
  \<^verbatim>\<open>detectCornersHarris\<close>, each time the edit produced a non-null picture, pixmap,
  image and array are conversions of one another, of equal width and height.
\<close>

theorem edits_keep_in_sync:
  "keeps_size tk \<Longrightarrow>
   (length (shape (npImage s)) = 3 \<and> (shape (npImage s) ! 2 = 3 \<or> shape (npImage s) ! 2 = 4) \<and>
    \<not> im_isNull (np2qimage tk (gray_of tk (npImage s))) \<longrightarrow>
      (\<exists>s'. toGray tk s = Inr s' \<and> in_sync tk s')) \<and>
   (cropActive s \<and> 5 < rw r \<and> 5 < rh r \<and>
    \<not> pm_isNull (pm_copy tk (pixmap s) (rx r) (ry r) (rw r) (rh r)) \<longrightarrow>
      (\<exists>s'. cropEnd tk r s = Inr s' \<and> in_sync tk s')) \<and>
   (accepted de \<and>
    \<not> im_isNull (np2qimage tk
        (edge_magnitude tk (npImage s) (fst (chosen de)) (snd (chosen de)))) \<longrightarrow>
      in_sync tk (toEdges tk de s)) \<and>
   (accepted df \<and>
    \<not> im_isNull (np2qimage tk
        (filter_response tk (npImage s) (fst (chosen df)) (snd (chosen df)))) \<longrightarrow>
      in_sync tk (filterImage tk df s)) \<and>
   (accepted db \<and> \<not> im_isNull (np2qimage tk (binary_of tk (npImage s) (chosen db))) \<longrightarrow>
      in_sync tk (toBinary tk db s)) \<and>
   (\<not> im_isNull (np2qimage tk (cv_resize tk (npImage s) (fst v) (snd v))) \<longrightarrow>
      in_sync tk (resizeImage tk True v s)) \<and>
   (\<not> pm_isNull (prevPixmap s) \<longrightarrow> in_sync tk (undoLast tk s)) \<and>
   (shape (npImage s) \<noteq> [] \<and> \<not> im_isNull (image (detectCornersHarris tk s)) \<longrightarrow>
      in_sync tk (detectCornersHarris tk s))"
proof -
  assume k: "keeps_size tk"
  have gray: "length (shape (npImage s)) = 3 \<and>
      (shape (npImage s) ! 2 = 3 \<or> shape (npImage s) ! 2 = 4) \<and>
      \<not> im_isNull (np2qimage tk (gray_of tk (npImage s))) \<longrightarrow>
      (\<exists>s'. toGray tk s = Inr s' \<and> in_sync tk s')"
    using in_sync_commit [OF k, of "gray_of tk (npImage s)" "s\<lparr>prevPixmap := pixmap s\<rparr>"]
    by (auto simp add: toGray_def gray_of_def Let_def)
  have crop: "cropActive s \<and> 5 < rw r \<and> 5 < rh r \<and>
      \<not> pm_isNull (pm_copy tk (pixmap s) (rx r) (ry r) (rw r) (rh r)) \<longrightarrow>
      (\<exists>s'. cropEnd tk r s = Inr s' \<and> in_sync tk s')"
    by (simp add: cropEnd_def Let_def in_sync_rebuild [OF k])
  have edges: "accepted de \<and>
      \<not> im_isNull (np2qimage tk
          (edge_magnitude tk (npImage s) (fst (chosen de)) (snd (chosen de)))) \<longrightarrow>
      in_sync tk (toEdges tk de s)"
    by (simp add: toEdges_def Let_def in_sync_commit [OF k])
  have filt: "accepted df \<and>
      \<not> im_isNull (np2qimage tk
          (filter_response tk (npImage s) (fst (chosen df)) (snd (chosen df)))) \<longrightarrow>
      in_sync tk (filterImage tk df s)"
    by (simp add: filterImage_def Let_def in_sync_commit [OF k] fold_tryFilter)
  have bin: "accepted db \<and>
      \<not> im_isNull (np2qimage tk (binary_of tk (npImage s) (chosen db))) \<longrightarrow>
      in_sync tk (toBinary tk db s)"
    by (simp add: toBinary_def Let_def in_sync_commit [OF k])
  have res: "\<not> im_isNull (np2qimage tk (cv_resize tk (npImage s) (fst v) (snd v))) \<longrightarrow>
      in_sync tk (resizeImage tk True v s)"
    by (simp add: resizeImage_def Let_def in_sync_commit [OF k])
  have undo: "\<not> pm_isNull (prevPixmap s) \<longrightarrow> in_sync tk (undoLast tk s)"
    by (simp add: undoLast_def Let_def pm_isNull_def in_sync_rebuild [OF k])
  have harris: "shape (npImage s) \<noteq> [] \<and> \<not> im_isNull (image (detectCornersHarris tk s)) \<longrightarrow>
      in_sync tk (detectCornersHarris tk s)"
  proof
    assume a: "shape (npImage s) \<noteq> [] \<and> \<not> im_isNull (image (detectCornersHarris tk s))"
    then obtain s' where e: "detectCornersHarris tk s = np2image2pixmap tk (npImage s') False s'"
      using detectCornersHarris_shows by blast
    with a have "\<not> im_isNull (np2qimage tk (npImage s'))" by simp
    from in_sync_shown [OF k this] e show "in_sync tk (detectCornersHarris tk s)" by simp
  qed
  from gray crop edges filt bin res undo harris show ?thesis by blast
qed

theorem edits_keep_in_sync_witness:
  "keeps_size sample_toolkit \<and>
   length (shape (npImage color_shown)) = 3 \<and> shape (npImage color_shown) ! 2 = 3 \<and>
   \<not> im_isNull (np2qimage sample_toolkit (gray_of sample_toolkit (npImage color_shown))) \<and>
   (\<exists>s'. toGray sample_toolkit color_shown = Inr s' \<and> in_sync sample_toolkit s') \<and>
   shape (npImage color_shown) \<noteq> [] \<and>
   \<not> im_isNull (image (detectCornersHarris sample_toolkit color_shown)) \<and>
   in_sync sample_toolkit (detectCornersHarris sample_toolkit color_shown) \<and>
   cropActive crop_ready \<and> 5 < rw big_rect \<and> 5 < rh big_rect \<and>
   \<not> pm_isNull (pm_copy sample_toolkit (pixmap crop_ready)
        (rx big_rect) (ry big_rect) (rw big_rect) (rh big_rect)) \<and>
   (\<exists>s'. cropEnd sample_toolkit big_rect crop_ready = Inr s' \<and> in_sync sample_toolkit s') \<and>
   accepted ok_edges \<and> in_sync sample_toolkit (toEdges sample_toolkit ok_edges crop_ready) \<and>
   accepted ok_filter \<and> in_sync sample_toolkit (filterImage sample_toolkit ok_filter crop_ready) \<and>
   accepted ok_binary \<and> in_sync sample_toolkit (toBinary sample_toolkit ok_binary crop_ready) \<and>
   in_sync sample_toolkit (resizeImage sample_toolkit True (4, 4) crop_ready) \<and>
   \<not> pm_isNull (prevPixmap crop_ready) \<and>
   in_sync sample_toolkit (undoLast sample_toolkit crop_ready)"
proof -
  have sh: "shape color_1x1 = [1, 1, 3]" "shape gray_8x8 = [8, 8]" "shape gray_1x1 = [1, 1]"
    by (simp_all add: color_1x1_def gray_8x8_def gray_1x1_def)
  have g: "\<not> im_isNull (np2qimage sample_toolkit (gray_of sample_toolkit (npImage color_shown)))"
    by (simp add: gray_of_def color_shown_def sample_gray_color_1x1 sh sample_np2qimage_def
        im_isNull_def)
  have c3: "length (shape (npImage color_shown)) = 3 \<and> shape (npImage color_shown) ! 2 = 3"
    "shape (npImage color_shown) \<noteq> []"
    by (simp_all add: color_shown_def sh)
  have h: "\<not> im_isNull (image (detectCornersHarris sample_toolkit color_shown))"
    by (simp add: detectCornersHarris_def Let_def color_shown_def sh sample_np2qimage_def
        im_isNull_def)
  have r: "5 < rw big_rect \<and> 5 < rh big_rect" by (simp add: big_rect_def)
  have ins: "inside big_rect (pm_of gray_8x8)"
    by (simp add: inside_def big_rect_def pm_of_size sh)
  with sample_copy_fits have
    "pm_width (pm_copy sample_toolkit (pm_of gray_8x8)
        (rx big_rect) (ry big_rect) (rw big_rect) (rh big_rect)) = rw big_rect \<and>
     pm_height (pm_copy sample_toolkit (pm_of gray_8x8)
        (rx big_rect) (ry big_rect) (rw big_rect) (rh big_rect)) = rh big_rect"
    unfolding copy_fits_def by blast
  with r have cp: "\<not> pm_isNull (pm_copy sample_toolkit (pixmap crop_ready)
      (rx big_rect) (ry big_rect) (rw big_rect) (rh big_rect))"
    by (simp add: pm_isNull_def)
  have d: "accepted ok_edges" "accepted ok_filter" "accepted ok_binary"
    by (simp_all add: ok_edges_def ok_filter_def ok_binary_def)
  have e: "\<not> im_isNull (np2qimage sample_toolkit (edge_magnitude sample_toolkit
      (npImage crop_ready) (fst (chosen ok_edges)) (snd (chosen ok_edges))))"
    by (simp add: sample_edges_def sample_np2qimage_def im_isNull_def sh)
  have f: "\<not> im_isNull (np2qimage sample_toolkit (filter_response sample_toolkit
      (npImage crop_ready) (fst (chosen ok_filter)) (snd (chosen ok_filter))))"
    by (simp add: sample_filter_def sample_np2qimage_def im_isNull_def sh)
  have b: "\<not> im_isNull (np2qimage sample_toolkit
      (binary_of sample_toolkit (npImage crop_ready) (chosen ok_binary)))"
    by (simp add: binary_of_def ok_binary_def sample_binary_def sample_np2qimage_def
        im_isNull_def sh)
  have z: "\<not> im_isNull (np2qimage sample_toolkit
      (cv_resize sample_toolkit (npImage crop_ready) (fst (4, 4)) (snd (4, 4))))"
    by (simp add: sample_resize_def sample_np2qimage_def im_isNull_def sh)
  have u: "\<not> pm_isNull (prevPixmap crop_ready)"
    by (simp add: pm_isNull_def pm_of_size sh)
  from edits_keep_in_sync [OF sample_keeps_size, where s = color_shown and r = big_rect
      and de = ok_edges and df = ok_filter and db = ok_binary and v = "(4, 4)"]
    edits_keep_in_sync [OF sample_keeps_size, where s = crop_ready and r = big_rect
      and de = ok_edges and df = ok_filter and db = ok_binary and v = "(4, 4)"]
    sample_keeps_size g c3 h r cp d e f b z u
  show ?thesis by simp
qed

text \<open>
  C1. After every committing edit the three forms are to show one picture, and
  \<^verbatim>\<open>drawlines\<close> is one of the edits named. It does not keep them so. A window showing
  the colour pixel (10, 20, 30) is in sync; \<^verbatim>\<open>drawlines\<close> (no line found) puts the gray
  pixel (22, 22, 22) into image and pixmap and never assigns the array, which still
  holds (10, 20, 30): the window is no longer in sync. Its sibling
  \<^verbatim>\<open>detectCornersHarris\<close> ends in the same call with \<^verbatim>\<open>numpyAlso=False\<close> but has
  assigned the drawing to \<^verbatim>\<open>self.npImage\<close> before, and stays in sync.
\<close>

theorem drawlines_out_of_sync:
  "in_sync sample_toolkit (showing color_1x1 null_pixmap) \<and>
   \<not> in_sync sample_toolkit (drawlines sample_toolkit (showing color_1x1 null_pixmap)) \<and>
   npImage (drawlines sample_toolkit (showing color_1x1 null_pixmap)) = color_1x1 \<and>
   image (drawlines sample_toolkit (showing color_1x1 null_pixmap)) =
     \<lparr>im_width = 1, im_height = 1, im_depth = 24, im_bits = [22, 22, 22]\<rparr> \<and>
   pixmap (drawlines sample_toolkit (showing color_1x1 null_pixmap)) =
     \<lparr>pm_width = 1, pm_height = 1, pm_depth = 24, pm_bits = [22, 22, 22]\<rparr>"
proof -
  have a: "in_sync sample_toolkit (showing color_1x1 null_pixmap)"
    by (simp add: in_sync_def linked_def committed_def same_size_def showing_def
        color_1x1_def sample_np2qimage_def sample_fromImage_def)
  have b: "\<not> linked sample_toolkit after_drawlines"
    by (simp add: linked_def committed_def rebuilt_def after_drawlines_fields
        gray_pixel_array color_1x1_def sample_np2qimage_def sample_toImage_def)
  from a b after_drawlines_fields show ?thesis
    by (simp add: in_sync_def after_drawlines_def)
qed

end
